theory Spec2Isabelle
  imports Main "HOL-Library.Word"
begin

section \<open>The Stripe webhook handler (src/lambda/lamda-function.py)\<close>

text \<open>
  The handler is one Python function, \<open>lambda_handler\<close>, with two helpers,
  \<open>get_raw_body\<close> and \<open>sha256_token\<close>. It is embedded as a pure function from the
  runtime (environment variables, clock, library functions) and the inbound event to an
  outcome: what the handler returns, or the exception it dies with, and the effects it
  had on the way, in program order.
\<close>

subsection \<open>Python values\<close>

text \<open>
  A Python \<open>str\<close> is a sequence of Unicode code points, lone surrogates included
  (\<open>json.loads\<close> yields them for an escape such as \<open>\ud800\<close>). It is modelled as the
  list of its code points; \<open>str_of\<close> gives the \<open>str\<close> of a literal of the source.
\<close>

type_synonym str = "nat list"

definition str_of :: "string \<Rightarrow> str" where
  "str_of s = map of_char s"

text \<open>
  The values \<open>json.loads\<close> produces, which is what the verified Stripe event is made of:
  \<open>None\<close>, booleans, integers, floats, strings, lists and dicts. A finite float is
  kept as mantissa and exponent (\<open>JFloat m e\<close> is \<open>m * 2 ^ e\<close>); only whether it is
  zero is ever looked at. \<open>JNaN\<close> and \<open>JInfinity\<close> (with its sign) are the floats that
  \<open>json.loads\<close> makes of \<open>NaN\<close>, \<open>Infinity\<close> and \<open>-Infinity\<close>. A dict is an
  association list, read with \<open>map_of\<close>. The Stripe library hands the dicts of an
  event over as \<open>StripeObject\<close>s, which are dicts whose keys can also be read as
  attributes.
\<close>

datatype json =
    JNull
  | JBool bool
  | JInt int
  | JFloat int int
  | JNaN
  | JInfinity bool
  | JStr str
  | JArr "json list"
  | JObj "(str \<times> json) list"

type_synonym dict = "(str \<times> json) list"

abbreviation JText :: "string \<Rightarrow> json" where
  "JText s \<equiv> JStr (str_of s)"

abbreviation dict_of :: "(string \<times> json) list \<Rightarrow> dict" where
  "dict_of kvs \<equiv> map (\<lambda>(k, v). (str_of k, v)) kvs"

text \<open>The exceptions that can leave the handler uncaught.\<close>

datatype exn = AttributeError | TypeError | UnicodeEncodeError | Binascii_Error

text \<open>Python truthiness, as \<open>not x\<close> and \<open>x or y\<close> test it.\<close>

fun truthy :: "json \<Rightarrow> bool" where
  "truthy JNull = False"
| "truthy (JBool b) = b"
| "truthy (JInt i) = (i \<noteq> 0)"
| "truthy (JFloat m e) = (m \<noteq> 0)"
| "truthy JNaN = True"
| "truthy (JInfinity negative) = True"
| "truthy (JStr s) = (s \<noteq> [])"
| "truthy (JArr xs) = (xs \<noteq> [])"
| "truthy (JObj kvs) = (kvs \<noteq> [])"

definition py_or :: "json \<Rightarrow> json \<Rightarrow> json" where
  \<comment> \<open>\<open>a or b\<close>\<close>
  "py_or a b = (if truthy a then a else b)"

definition dict_get :: "dict \<Rightarrow> string \<Rightarrow> json" where
  \<comment> \<open>\<open>d.get(k)\<close> on a dict, for a key \<open>k\<close> the source names: \<open>None\<close> when it is missing\<close>
  "dict_get d k = (case map_of d (str_of k) of None \<Rightarrow> JNull | Some v \<Rightarrow> v)"

definition attr_get :: "json \<Rightarrow> string \<Rightarrow> exn + json" where
  \<comment> \<open>\<open>x.get(k)\<close> on any value: only a dict has the method\<close>
  "attr_get x k = (case x of JObj d \<Rightarrow> Inr (dict_get d k) | _ \<Rightarrow> Inl AttributeError)"

subsection \<open>Strings and bytes\<close>

text \<open>
  \<open>str.strip()\<close> removes the white space of Unicode at both ends. \<open>str.encode("utf-8")\<close>
  gives one to four bytes for a code point and raises \<open>UnicodeEncodeError\<close> on a lone
  surrogate (U+D800 to U+DFFF).
\<close>

type_synonym byte = "8 word"
type_synonym bytes = "byte list"

definition isspace :: "nat \<Rightarrow> bool" where
  "isspace n =
     ((9 \<le> n \<and> n \<le> 13) \<or> (28 \<le> n \<and> n \<le> 32) \<or> n = 133 \<or> n = 160
      \<or> n = 0x1680 \<or> (0x2000 \<le> n \<and> n \<le> 0x200A) \<or> n = 0x2028 \<or> n = 0x2029
      \<or> n = 0x202F \<or> n = 0x205F \<or> n = 0x3000)"

definition strip :: "str \<Rightarrow> str" where
  "strip s = rev (dropWhile isspace (rev (dropWhile isspace s)))"

definition surrogate :: "nat \<Rightarrow> bool" where
  "surrogate n = (0xD800 \<le> n \<and> n \<le> 0xDFFF)"

definition encode_char :: "nat \<Rightarrow> bytes" where
  "encode_char n =
     (if n < 0x80 then [of_nat n]
      else if n < 0x800 then [of_nat (0xC0 + n div 64), of_nat (0x80 + n mod 64)]
      else if n < 0x10000
      then [of_nat (0xE0 + n div 4096), of_nat (0x80 + n div 64 mod 64), of_nat (0x80 + n mod 64)]
      else [of_nat (0xF0 + n div 262144), of_nat (0x80 + n div 4096 mod 64),
            of_nat (0x80 + n div 64 mod 64), of_nat (0x80 + n mod 64)])"

definition encode_utf8 :: "str \<Rightarrow> exn + bytes" where
  "encode_utf8 s =
     (if list_ex surrogate s then Inl UnicodeEncodeError else Inr (concat (map encode_char s)))"

text \<open>
  \<open>str.lower()\<close> on a string of code points below U+0100 lowers each of them by itself:
  the letters A to Z and the capital letters of U+00C0 to U+00DE move up by 32. On any
  other string it follows the Unicode tables of the interpreter (it can change the
  length, and a sigma depends on its neighbours); those tables are a parameter, the
  field \<open>unicode_lower\<close> of the runtime below.
\<close>

definition lower_char :: "nat \<Rightarrow> nat" where
  "lower_char n =
     (if (65 \<le> n \<and> n \<le> 90) \<or> (192 \<le> n \<and> n \<le> 222 \<and> n \<noteq> 215) then n + 32 else n)"

text \<open>
  \<open>hashlib.sha256(b).hexdigest()\<close>: the digest function is the library's and is a
  parameter of the model, of type \<open>bytes \<Rightarrow> 256 word\<close>; its hexadecimal rendering is
  the 64 lower-case digits of the digest, most significant first.
\<close>

definition hex_digit :: "nat \<Rightarrow> char" where
  "hex_digit n = ''0123456789abcdef'' ! (n mod 16)"

definition hexdigest :: "256 word \<Rightarrow> string" where
  "hexdigest w = map (\<lambda>i. hex_digit (unat (drop_bit (4 * (63 - i)) w))) [0..<64]"

subsection \<open>The runtime and the inbound event\<close>

text \<open>What \<open>stripe.Webhook.construct_event\<close> does: return the event, or raise.\<close>

datatype verification =
    Verified dict
  | SignatureVerificationError
  | OtherException string

record runtime =
  environ :: "(string \<times> string) list"
  clock :: int
  construct_event :: "bytes \<Rightarrow> string \<Rightarrow> string \<Rightarrow> verification"
  b64decode :: "str \<Rightarrow> exn + bytes"
  sha256 :: "bytes \<Rightarrow> 256 word"
  unicode_lower :: "str \<Rightarrow> str"
  render :: "json \<Rightarrow> str"
  stdout_refuses :: "nat \<Rightarrow> bool"

definition lower :: "runtime \<Rightarrow> str \<Rightarrow> str" where
  "lower rt s = (if list_all (\<lambda>n. n < 256) s then map lower_char s else unicode_lower rt s)"

text \<open>
  The event the platform hands to the handler is a dict; a key of it may be missing,
  hold \<open>None\<close> or hold a value of the type the platform documents.
\<close>

datatype 'a entry = Missing | Null | Value 'a

record event =
  headers :: "(string \<times> string) list entry"
  body :: "str entry"
  isBase64Encoded :: "bool entry"

record response =
  statusCode :: int
  response_headers :: "(string \<times> string) list option"
  response_body :: string

text \<open>
  Effects, in program order: the call of the verification library and the \<open>print\<close>
  statements that wrote their line. A printed JSON document is kept as the value that is
  serialised.

  \<open>print\<close> writes to the standard output, a Unicode stream (the fixed messages hold
  characters beyond ASCII): it writes every code point that is not a lone surrogate,
  and raises \<open>UnicodeEncodeError\<close> on a lone surrogate that the stream refuses. Which
  ones it refuses is the stream's configuration, the field \<open>stdout_refuses\<close> of the
  runtime: all of them for UTF-8 with the error handler \<open>strict\<close>, which is the
  interpreter's default; none for a stream kept in memory. The fixed messages and the
  text of an exception hold no surrogate. What is printed of the event can: a string is
  printed as it is; \<open>None\<close>, a boolean and a number print in ASCII; a list or a mapping
  prints as \<open>str\<close> renders it, which is the library's and the interpreter's (the field
  \<open>render\<close> of the runtime). \<open>json.dumps(\<dots>, ensure_ascii=False)\<close> leaves every
  string of the document, keys included, as it is.
\<close>

definition refused :: "runtime \<Rightarrow> nat \<Rightarrow> bool" where
  "refused rt c = (surrogate c \<and> stdout_refuses rt c)"

definition unprintable :: "runtime \<Rightarrow> json \<Rightarrow> bool" where
  "unprintable rt x =
     (case x of
        JStr s \<Rightarrow> list_ex (refused rt) s
      | JArr xs \<Rightarrow> list_ex (refused rt) (render rt x)
      | JObj d \<Rightarrow> list_ex (refused rt) (render rt x)
      | _ \<Rightarrow> False)"

text \<open>Whether a string of a document, a key included, holds a code point of a given kind.\<close>

fun holds :: "(nat \<Rightarrow> bool) \<Rightarrow> json \<Rightarrow> bool" where
  "holds p (JStr s) = list_ex p s"
| "holds p (JArr xs) = (\<exists>x \<in> set xs. holds p x)"
| "holds p (JObj d) = (list_ex p (concat (map fst d)) \<or> (\<exists>x \<in> set (map snd d). holds p x))"
| "holds p x = False"

datatype effect =
    Construct_event bytes string string
  | Print_invalid_signature
  | Print_verify_error string
  | Print_valid_webhook
  | Print_event_id json
  | Print_event_type json
  | Print_normalized_json json

record outcome =
  returned :: "exn + response"
  effects :: "effect list"

subsection \<open>Helpers\<close>

definition get_raw_body :: "runtime \<Rightarrow> event \<Rightarrow> exn + bytes" where
  "get_raw_body rt event =
     (let body = (case body event of Missing \<Rightarrow> Value [] | b \<Rightarrow> b) in
      if isBase64Encoded event = Value True
      then (case body of Value s \<Rightarrow> b64decode rt s | _ \<Rightarrow> Inl TypeError)
      else (case body of Value s \<Rightarrow> encode_utf8 s | _ \<Rightarrow> Inl AttributeError))"

text \<open>
  \<open>sha256_token\<close> is annotated \<open>str | None\<close> but is handed whatever the event holds.
  On a value that is not empty, \<open>value.strip()\<close> comes first: a number, a boolean or a
  list has no such attribute; a mapping of the event has it only when it has the key
  \<open>strip\<close>, and what it then holds cannot be called.
\<close>

definition sha256_token :: "runtime \<Rightarrow> json \<Rightarrow> exn + json" where
  "sha256_token rt v =
     (if \<not> truthy v then Inr JNull
      else (case v of
              JStr s \<Rightarrow>
                (case encode_utf8 (lower rt (strip s)) of
                   Inl e \<Rightarrow> Inl e
                 | Inr b \<Rightarrow> Inr (JStr (str_of (hexdigest (sha256 rt b)))))
            | JObj d \<Rightarrow> (if map_of d (str_of ''strip'') = None then Inl AttributeError
                        else Inl TypeError)
            | _ \<Rightarrow> Inl AttributeError))"

subsection \<open>Normalisation (lines 57 to 107)\<close>

definition receipt_email_of :: "dict \<Rightarrow> exn + json" where
  "receipt_email_of obj =
     (let receipt_email = py_or (dict_get obj ''receipt_email'') (dict_get obj ''customer_email'') in
      if \<not> truthy receipt_email
      then (let cust_details = py_or (dict_get obj ''customer_details'') (JObj []) in
            attr_get cust_details ''email'')
      else Inr receipt_email)"

definition assemble :: "runtime \<Rightarrow> dict \<Rightarrow> dict \<Rightarrow> json \<Rightarrow> exn + json" where
  "assemble rt stripe_event obj receipt_email =
     (let event_type = dict_get stripe_event ''type'';
          received_at = JInt (clock rt);
          transaction_id = dict_get obj ''id'';
          customer_id = dict_get obj ''customer'';
          amount_minor = py_or (py_or (py_or (dict_get obj ''amount_received'')
                                             (dict_get obj ''amount''))
                                      (dict_get obj ''amount_total''))
                               (JInt 0);
          currency = dict_get obj ''currency'';
          payment_intent_id =
            (if dict_get obj ''object'' \<noteq> JText ''payment_intent''
             then dict_get obj ''payment_intent'' else dict_get obj ''id'');
          charge_id = py_or (dict_get obj ''charge'') (dict_get obj ''latest_charge'')
      in case sha256_token rt receipt_email of
           Inl e \<Rightarrow> Inl e
         | Inr email_token \<Rightarrow>
            (case sha256_token rt customer_id of
               Inl e \<Rightarrow> Inl e
             | Inr customer_id_token \<Rightarrow>
                Inr (JObj
                  (dict_of [(''provider'', JText ''stripe''),
                   (''source'', JText ''webhook''),
                   (''event_id'', dict_get stripe_event ''id''),
                   (''event_type'', event_type),
                   (''received_at'', received_at),
                   (''transaction'', JObj
                      (dict_of [(''transaction_id'', transaction_id),
                       (''amount_minor'', amount_minor),
                       (''currency'', currency),
                       (''status'', dict_get obj ''status''),
                       (''created'', dict_get obj ''created'')])),
                   (''pii'', JObj
                      (dict_of [(''email_token'', email_token),
                       (''customer_id_token'', customer_id_token)])),
                   (''refs'', JObj
                      (dict_of [(''payment_intent_id'', payment_intent_id),
                       (''charge_id'', charge_id),
                       (''customer_id'', customer_id)]))]))))"

definition event_object :: "dict \<Rightarrow> exn + dict" where
  \<comment> \<open>line 57, and the first \<open>obj.get\<close> after it, which needs \<open>obj\<close> to be a dict\<close>
  "event_object stripe_event =
     (case attr_get (py_or (dict_get stripe_event ''data'') (JObj [])) ''object'' of
        Inl e \<Rightarrow> Inl e
      | Inr x \<Rightarrow> (case py_or x (JObj []) of JObj obj \<Rightarrow> Inr obj | _ \<Rightarrow> Inl AttributeError))"

definition normalize :: "runtime \<Rightarrow> dict \<Rightarrow> exn + json" where
  "normalize rt stripe_event =
     (case event_object stripe_event of
        Inl e \<Rightarrow> Inl e
      | Inr obj \<Rightarrow>
         (case receipt_email_of obj of
            Inl e \<Rightarrow> Inl e
          | Inr receipt_email \<Rightarrow> assemble rt stripe_event obj receipt_email))"

subsection \<open>The handler\<close>

definition missing_secret :: response where
  "missing_secret =
     \<lparr>statusCode = 500, response_headers = None,
      response_body = ''Missing STRIPE_WEBHOOK_SECRET env''\<rparr>"

definition missing_header :: response where
  "missing_header =
     \<lparr>statusCode = 400, response_headers = None,
      response_body = ''Missing stripe-signature header''\<rparr>"

definition invalid_signature :: response where
  "invalid_signature =
     \<lparr>statusCode = 401, response_headers = None, response_body = ''Invalid signature''\<rparr>"

definition verify_error :: "string \<Rightarrow> response" where
  "verify_error msg = \<lparr>statusCode = 500, response_headers = None, response_body = msg\<rparr>"

definition ok_response :: response where
  "ok_response =
     \<lparr>statusCode = 200,
      response_headers = Some [(''Content-Type'', ''application/json'')],
      response_body = [CHR ''{'', CHR 0x22, CHR ''o'', CHR ''k'', CHR 0x22, CHR '':'',
                       CHR '' '', CHR ''t'', CHR ''r'', CHR ''u'', CHR ''e'', CHR ''}'']\<rparr>"

definition str_or :: "string option \<Rightarrow> string option \<Rightarrow> string option" where
  \<comment> \<open>\<open>a or b\<close> on values that are a \<open>str\<close> or \<open>None\<close>\<close>
  "str_or a b = (if a \<noteq> None \<and> a \<noteq> Some [] then a else b)"

definition request_headers :: "event \<Rightarrow> (string \<times> string) list" where
  \<comment> \<open>line 30: \<open>event.get("headers") or {}\<close>\<close>
  "request_headers event = (case headers event of Value h \<Rightarrow> h | _ \<Rightarrow> [])"

definition signature_header :: "event \<Rightarrow> string option" where
  \<comment> \<open>line 31\<close>
  "signature_header event =
     (let headers = request_headers event in
      str_or (map_of headers ''stripe-signature'') (map_of headers ''Stripe-Signature''))"

definition process :: "runtime \<Rightarrow> effect \<Rightarrow> dict \<Rightarrow> outcome" where
  \<comment> \<open>lines 52 to 116: what follows a successful verification\<close>
  "process rt call stripe_event =
     (let event_id = dict_get stripe_event ''id'';
          event_type = dict_get stripe_event ''type'';
          printed = [call, Print_valid_webhook, Print_event_id event_id,
                     Print_event_type event_type]
      in if unprintable rt event_id
         then \<lparr>returned = Inl UnicodeEncodeError, effects = [call, Print_valid_webhook]\<rparr>
         else if unprintable rt event_type
         then \<lparr>returned = Inl UnicodeEncodeError,
               effects = [call, Print_valid_webhook, Print_event_id event_id]\<rparr>
         else (case normalize rt stripe_event of
                 Inl e \<Rightarrow> \<lparr>returned = Inl e, effects = printed\<rparr>
               | Inr normalized \<Rightarrow>
                   if holds (refused rt) normalized
                   then \<lparr>returned = Inl UnicodeEncodeError, effects = printed\<rparr>
                   else \<lparr>returned = Inr ok_response,
                         effects = printed @ [Print_normalized_json normalized]\<rparr>))"

text \<open>
  \<open>lambda_handler(event, context)\<close>; \<open>context\<close> is never read. Each \<open>return\<close> of the
  source is one outcome below, in the source's order: the secret (lines 25 to 27), the
  signature header (30 to 34), the raw body (37), the verification (39 to 50) and the
  processing of the verified event (52 to 116). An exception raised outside the \<open>try\<close>
  block leaves the handler: the outcome holds it in place of a response.
\<close>

definition lambda_handler :: "runtime \<Rightarrow> event \<Rightarrow> outcome" where
  "lambda_handler rt event =
     (case map_of (environ rt) ''STRIPE_WEBHOOK_SECRET'' of
        None \<Rightarrow> \<lparr>returned = Inr missing_secret, effects = []\<rparr>
      | Some endpoint_secret \<Rightarrow>
          if endpoint_secret = [] then \<lparr>returned = Inr missing_secret, effects = []\<rparr>
          else (case signature_header event of
                  None \<Rightarrow> \<lparr>returned = Inr missing_header, effects = []\<rparr>
                | Some sig_header \<Rightarrow>
                    if sig_header = [] then \<lparr>returned = Inr missing_header, effects = []\<rparr>
                    else (case get_raw_body rt event of
                            Inl e \<Rightarrow> \<lparr>returned = Inl e, effects = []\<rparr>
                          | Inr payload \<Rightarrow>
                             (let call = Construct_event payload sig_header endpoint_secret in
                              case construct_event rt payload sig_header endpoint_secret of
                                SignatureVerificationError \<Rightarrow>
                                  \<lparr>returned = Inr invalid_signature,
                                   effects = [call, Print_invalid_signature]\<rparr>
                              | OtherException msg \<Rightarrow>
                                  \<lparr>returned = Inr (verify_error msg),
                                   effects = [call, Print_verify_error msg]\<rparr>
                              | Verified stripe_event \<Rightarrow> process rt call stripe_event))))"

subsection \<open>Reading an outcome\<close>

text \<open>The documents the handler emitted, and what the verification calls it made returned.\<close>

fun normalized_docs :: "effect list \<Rightarrow> json list" where
  "normalized_docs [] = []"
| "normalized_docs (Print_normalized_json d # es) = d # normalized_docs es"
| "normalized_docs (e # es) = normalized_docs es"

fun verifications :: "runtime \<Rightarrow> effect list \<Rightarrow> verification list" where
  "verifications rt [] = []"
| "verifications rt (Construct_event p s k # es) = construct_event rt p s k # verifications rt es"
| "verifications rt (e # es) = verifications rt es"

definition field :: "json \<Rightarrow> string \<Rightarrow> json" where
  \<comment> \<open>a member of a document, \<open>None\<close> when there is none\<close>
  "field x k = (case x of JObj d \<Rightarrow> dict_get d k | _ \<Rightarrow> JNull)"

definition is_integer :: "json \<Rightarrow> bool" where
  "is_integer x = (case x of JInt i \<Rightarrow> True | _ \<Rightarrow> False)"

definition is_text :: "json \<Rightarrow> bool" where
  "is_text x = (case x of JStr s \<Rightarrow> True | _ \<Rightarrow> False)"

text \<open>Where the fields the claims speak of sit in the normalized document.\<close>

definition amount_minor_of :: "json \<Rightarrow> json" where
  "amount_minor_of doc = field (field doc ''transaction'') ''amount_minor''"

definition payment_intent_id_of :: "json \<Rightarrow> json" where
  "payment_intent_id_of doc = field (field doc ''refs'') ''payment_intent_id''"

definition email_token_of :: "json \<Rightarrow> json" where
  "email_token_of doc = field (field doc ''pii'') ''email_token''"

definition customer_id_token_of :: "json \<Rightarrow> json" where
  "customer_id_token_of doc = field (field doc ''pii'') ''customer_id_token''"

definition is_mapping :: "json \<Rightarrow> bool" where
  "is_mapping x = (case x of JObj d \<Rightarrow> True | _ \<Rightarrow> False)"

definition as_dict :: "json \<Rightarrow> dict" where
  \<comment> \<open>the entries of a mapping; anything else has none\<close>
  "as_dict x = (case x of JObj d \<Rightarrow> d | _ \<Rightarrow> [])"

text \<open>
  The spec's "first non-empty/non-zero value among ..., else a default", written from
  its words, to be compared with the \<open>or\<close> chains of the source.
\<close>

fun first_non_empty :: "json list \<Rightarrow> json \<Rightarrow> json" where
  "first_non_empty [] d = d"
| "first_non_empty (x # xs) d = (if truthy x then x else first_non_empty xs d)"

text \<open>
  The shape of a verified event that the normalisation code relies on: where it calls
  \<open>.get\<close> there is a mapping or nothing, and what it hashes is nothing, or text that
  can be encoded once trimmed and lower-cased.
\<close>

definition hashable :: "runtime \<Rightarrow> json \<Rightarrow> bool" where
  "hashable rt x =
     (case x of JStr s \<Rightarrow> s = [] \<or> list_all (\<lambda>n. \<not> surrogate n) (lower rt (strip s))
              | _ \<Rightarrow> \<not> truthy x)"

definition stripe_shaped :: "runtime \<Rightarrow> dict \<Rightarrow> bool" where
  "stripe_shaped rt stripe_event =
     (let data = dict_get stripe_event ''data'';
          obj = field data ''object'';
          receipt_email = field obj ''receipt_email'';
          customer_email = field obj ''customer_email'';
          customer_details = field obj ''customer_details'';
          customer = field obj ''customer''
      in (is_mapping data \<or> \<not> truthy data)
         \<and> (is_mapping obj \<or> \<not> truthy obj)
         \<and> hashable rt customer
         \<and> (if truthy receipt_email then hashable rt receipt_email
             else if truthy customer_email then hashable rt customer_email
             else (is_mapping customer_details \<or> \<not> truthy customer_details)
                  \<and> hashable rt (field customer_details ''email'')))"

text \<open>
  A verified event is processed to the end when it has that shape and nothing that is
  printed of it holds a lone surrogate that the standard output refuses: its id, its
  type and the document built from it.
\<close>

definition emittable :: "runtime \<Rightarrow> dict \<Rightarrow> bool" where
  "emittable rt stripe_event =
     (stripe_shaped rt stripe_event
      \<and> \<not> unprintable rt (dict_get stripe_event ''id'')
      \<and> \<not> unprintable rt (dict_get stripe_event ''type'')
      \<and> (case normalize rt stripe_event of
             Inl e \<Rightarrow> False
           | Inr normalized \<Rightarrow> \<not> holds (refused rt) normalized))"

text \<open>Case-insensitive comparison of a header name with the provider's.\<close>

definition is_signature_name :: "string \<Rightarrow> bool" where
  "is_signature_name k = (map lower_char (str_of k) = str_of ''stripe-signature'')"

subsection \<open>Sample inputs\<close>

definition sample_object :: dict where
  "sample_object =
     (dict_of [(''id'', JText ''cs_1''), (''amount_total'', JInt 2500),
      (''currency'', JText ''usd''),
      (''customer'', JText ''cus_1''),
      (''customer_details'', JObj (dict_of [(''email'', JText ''A@B.com'')]))])"

definition sample_stripe_event :: dict where
  "sample_stripe_event =
     (dict_of [(''id'', JText ''evt_1''), (''type'', JText ''checkout.session.completed''),
      (''data'', JObj (dict_of [(''object'', JObj sample_object)]))])"

definition odd_stripe_event :: dict where
  \<comment> \<open>a signed event whose \<open>customer\<close> is a number\<close>
  "odd_stripe_event =
     (dict_of [(''id'', JText ''evt_2''), (''type'', JText ''charge.succeeded''),
      (''data'', JObj (dict_of
         [(''object'', JObj (dict_of [(''id'', JText ''ch_1''), (''customer'', JInt 5)]))]))])"

definition event_with :: "dict \<Rightarrow> dict" where
  \<comment> \<open>a verified event around a given \<open>data.object\<close>\<close>
  "event_with obj =
     (dict_of [(''id'', JText ''evt_3''), (''type'', JText ''payment_intent.succeeded''),
      (''data'', JObj (dict_of [(''object'', JObj obj)]))])"

definition surrogate_event :: dict where
  \<comment> \<open>a signed event whose \<open>customer\<close> is the lone surrogate U+D800\<close>
  "surrogate_event = event_with (dict_of [(''id'', JText ''ch_3''), (''customer'', JStr [0xD800])])"

definition unnamed_event :: dict where
  \<comment> \<open>a signed event whose \<open>id\<close> is the lone surrogate U+D800\<close>
  "unnamed_event = dict_of [(''id'', JStr [0xD800]), (''type'', JText ''ping'')]"

definition sample_construct_event :: "bytes \<Rightarrow> string \<Rightarrow> string \<Rightarrow> verification" where
  \<comment> \<open>the signature is checked first, the payload is parsed next\<close>
  "sample_construct_event payload sig_header secret =
     (if secret \<noteq> ''whsec_test'' \<or> sig_header = ''t=1,v1=bad'' then SignatureVerificationError
      else if payload \<noteq> [123, 125]
      then OtherException ''Expecting value: line 1 column 1 (char 0)''
      else if sig_header = ''t=1,v1=good'' then Verified sample_stripe_event
      else if sig_header = ''t=1,v1=odd'' then Verified odd_stripe_event
      else if sig_header = ''t=1,v1=surrogate'' then Verified surrogate_event
      else if sig_header = ''t=1,v1=unnamed'' then Verified unnamed_event
      else SignatureVerificationError)"

definition sample_runtime :: runtime where
  "sample_runtime =
     \<lparr>environ = [(''STRIPE_WEBHOOK_SECRET'', ''whsec_test'')],
      clock = 1700000000,
      construct_event = sample_construct_event,
      b64decode = (\<lambda>s. Inl Binascii_Error),
      sha256 = (\<lambda>b. of_nat (length b)),
      unicode_lower = (\<lambda>s. s),
      render = (\<lambda>x. []),
      stdout_refuses = (\<lambda>c. True)\<rparr>"

definition sample_request :: "(string \<times> string) list \<Rightarrow> event" where
  "sample_request hs =
     \<lparr>headers = Value hs, body = Value (str_of ''{}''), isBase64Encoded = Value False\<rparr>"

definition no_secret_runtime :: runtime where
  "no_secret_runtime = sample_runtime\<lparr>environ := []\<rparr>"

definition memory_runtime :: runtime where
  \<comment> \<open>the standard output is kept in memory: nothing is encoded, nothing refused\<close>
  "memory_runtime = sample_runtime\<lparr>stdout_refuses := (\<lambda>c. False)\<rparr>"

definition unnamed_request :: event where
  "unnamed_request = sample_request [(''Stripe-Signature'', ''t=1,v1=unnamed'')]"

definition unnamed_normalized :: json where
  "unnamed_normalized =
     JObj (dict_of
       [(''provider'', JText ''stripe''),
        (''source'', JText ''webhook''),
        (''event_id'', JStr [0xD800]),
        (''event_type'', JText ''ping''),
        (''received_at'', JInt 1700000000),
        (''transaction'', JObj (dict_of
           [(''transaction_id'', JNull), (''amount_minor'', JInt 0), (''currency'', JNull),
            (''status'', JNull), (''created'', JNull)])),
        (''pii'', JObj (dict_of [(''email_token'', JNull), (''customer_id_token'', JNull)])),
        (''refs'', JObj (dict_of
           [(''payment_intent_id'', JNull), (''charge_id'', JNull),
            (''customer_id'', JNull)]))])"

definition good_request :: event where
  "good_request = sample_request [(''Stripe-Signature'', ''t=1,v1=good'')]"

definition surrogate_request :: event where
  "surrogate_request = sample_request [(''Stripe-Signature'', ''t=1,v1=surrogate'')]"

definition odd_request :: event where
  "odd_request = sample_request [(''Stripe-Signature'', ''t=1,v1=odd'')]"

definition forged_request :: event where
  "forged_request = sample_request [(''stripe-signature'', ''t=1,v1=bad'')]"

definition not_json_request :: event where
  "not_json_request =
     \<lparr>headers = Value [(''stripe-signature'', ''t=1,v1=good'')],
      body = Value (str_of ''not json''), isBase64Encoded = Value False\<rparr>"

definition unsigned_request :: event where
  "unsigned_request = sample_request [(''Content-Type'', ''application/json'')]"

definition empty_signature_request :: event where
  "empty_signature_request = sample_request [(''Stripe-Signature'', [])]"

definition upper_case_request :: event where
  "upper_case_request = sample_request [(''STRIPE-SIGNATURE'', ''t=1,v1=good'')]"

definition sample_normalized :: json where
  \<comment> \<open>what the handler emits for \<open>sample_stripe_event\<close> under \<open>sample_runtime\<close>\<close>
  "sample_normalized =
     JObj (dict_of [(''provider'', JText ''stripe''),
           (''source'', JText ''webhook''),
           (''event_id'', JText ''evt_1''),
           (''event_type'', JText ''checkout.session.completed''),
           (''received_at'', JInt 1700000000),
           (''transaction'', JObj
              (dict_of [(''transaction_id'', JText ''cs_1''),
               (''amount_minor'', JInt 2500),
               (''currency'', JText ''usd''),
               (''status'', JNull),
               (''created'', JNull)])),
           (''pii'', JObj
              (dict_of [(''email_token'', JText (hexdigest 7)),
               (''customer_id_token'', JText (hexdigest 5))])),
           (''refs'', JObj
              (dict_of [(''payment_intent_id'', JNull),
               (''charge_id'', JNull),
               (''customer_id'', JText ''cus_1'')]))])"

definition pi_object :: dict where
  "pi_object =
     (dict_of [(''object'', JText ''payment_intent''), (''id'', JText ''pi_1''),
      (''payment_intent'', JText ''pi_other''), (''amount_received'', JInt 1000)])"

definition charge_object :: dict where
  "charge_object =
     (dict_of [(''object'', JText ''charge''), (''id'', JText ''ch_1''),
      (''payment_intent'', JText ''pi_2'')])"

definition text_amount_object :: dict where
  \<comment> \<open>an amount sent as text\<close>
  "text_amount_object = (dict_of [(''id'', JText ''ch_2''), (''amount'', JText ''12'')])"

definition text_amount_normalized :: json where
  "text_amount_normalized =
     JObj (dict_of [(''provider'', JText ''stripe''),
           (''source'', JText ''webhook''),
           (''event_id'', JText ''evt_3''),
           (''event_type'', JText ''payment_intent.succeeded''),
           (''received_at'', JInt 1700000000),
           (''transaction'', JObj
              (dict_of [(''transaction_id'', JText ''ch_2''),
               (''amount_minor'', JText ''12''),
               (''currency'', JNull),
               (''status'', JNull),
               (''created'', JNull)])),
           (''pii'', JObj
              (dict_of [(''email_token'', JNull),
               (''customer_id_token'', JNull)])),
           (''refs'', JObj
              (dict_of [(''payment_intent_id'', JNull),
               (''charge_id'', JNull),
               (''customer_id'', JNull)]))])"

definition empty_email_object :: dict where
  "empty_email_object = (dict_of [(''customer_details'', JObj (dict_of [(''email'', JStr [])]))])"

definition email_object :: dict where
  "email_object =
     (dict_of [(''id'', JText ''in_1''), (''receipt_email'', JNull),
      (''customer_email'', JText ''c@d.org''),
      (''customer_details'', JObj (dict_of [(''email'', JText ''other@d.org'')]))])"

definition strip_key_object :: json where
  \<comment> \<open>a mapping that has the key \<open>strip\<close>\<close>
  "strip_key_object = JObj (dict_of [(''strip'', JText ''x'')])"

text \<open>
  What \<open>hashlib.sha256(b"foo@bar.com").digest()\<close> is, and a runtime whose digest function
  agrees with \<open>hashlib\<close> on those bytes.
\<close>

definition foo_digest :: "256 word" where
  "foo_digest = 0x0C7E6A405862E402EB76A70F8A26FC732D07C32931E9FAE9AB1582911D2E8A3B"

definition hashlib_runtime :: runtime where
  "hashlib_runtime =
     sample_runtime
       \<lparr>sha256 := (\<lambda>b. if b = [102, 111, 111, 64, 98, 97, 114, 46, 99, 111, 109]
                       then foo_digest else 0)\<rparr>"

section \<open>Facts about the handler's control flow\<close>

lemma str_of_eq_iff [simp]: "str_of a = str_of b \<longleftrightarrow> a = b"
proof -
  have "inj (of_char :: char \<Rightarrow> nat)" by (rule injI) simp
  then show ?thesis unfolding str_of_def by (simp add: inj_map_eq_map)
qed

lemma of_char_no_surrogate: "\<not> surrogate (of_char c)"
proof -
  have "(of_char c :: nat) < 256" by (rule nat_of_char_less_256)
  then show ?thesis unfolding surrogate_def by linarith
qed

lemma text_no_surrogate [simp]:
  "\<not> list_ex surrogate (map of_char s)" "\<not> list_ex surrogate (str_of s)"
  "\<not> list_ex (refused rt) (map of_char s)" "\<not> list_ex (refused rt) (str_of s)"
  by (simp_all add: list_ex_iff str_of_def refused_def of_char_no_surrogate)

lemma process_verifications:
  "verifications rt (effects (process rt (Construct_event p s k) ev)) = [construct_event rt p s k]"
  by (simp add: process_def Let_def split: sum.splits)

lemma process_docs_iff:
  "normalized_docs (effects (process rt (Construct_event p s k) ev)) = [doc] \<longleftrightarrow>
     \<not> unprintable rt (dict_get ev ''id'') \<and> \<not> unprintable rt (dict_get ev ''type'')
     \<and> normalize rt ev = Inr doc \<and> \<not> holds (refused rt) doc"
  by (auto simp: process_def Let_def split: sum.splits)

lemma process_docs_cases:
  "normalized_docs (effects (process rt (Construct_event p s k) ev)) = []
   \<or> (\<exists>doc. normalized_docs (effects (process rt (Construct_event p s k) ev)) = [doc])"
  by (simp add: process_def Let_def split: sum.splits)

lemma process_returned:
  "returned (process rt (Construct_event p s k) ev) =
     (if \<exists>doc. normalized_docs (effects (process rt (Construct_event p s k) ev)) = [doc]
      then Inr ok_response
      else if \<not> unprintable rt (dict_get ev ''id'') \<and> \<not> unprintable rt (dict_get ev ''type'')
      then (case normalize rt ev of Inl e \<Rightarrow> Inl e | Inr d \<Rightarrow> Inl UnicodeEncodeError)
      else Inl UnicodeEncodeError)"
  by (simp add: process_def Let_def split: sum.splits)

lemma handler_after_verification:
  assumes "Verified ev \<in> set (verifications rt (effects (lambda_handler rt event)))"
  shows "\<exists>p s k. lambda_handler rt event = process rt (Construct_event p s k) ev"
  using assms
  by (auto simp: lambda_handler_def Let_def process_verifications
           split: option.splits sum.splits verification.splits if_splits)
     blast

lemma handler_docs_verified:
  assumes "normalized_docs (effects (lambda_handler rt event)) = [doc]"
  shows "\<exists>ev. Verified ev \<in> set (verifications rt (effects (lambda_handler rt event)))"
  using assms
  by (auto simp: lambda_handler_def Let_def process_verifications
           split: option.splits sum.splits verification.splits if_splits)

lemma handler_verifying:
  assumes "map_of (environ rt) ''STRIPE_WEBHOOK_SECRET'' = Some secret" "secret \<noteq> []"
      and "signature_header event = Some sig_header" "sig_header \<noteq> []"
      and "get_raw_body rt event = Inr payload"
  shows "lambda_handler rt event =
          (case construct_event rt payload sig_header secret of
             SignatureVerificationError \<Rightarrow>
               \<lparr>returned = Inr invalid_signature,
                effects = [Construct_event payload sig_header secret, Print_invalid_signature]\<rparr>
           | OtherException msg \<Rightarrow>
               \<lparr>returned = Inr (verify_error msg),
                effects = [Construct_event payload sig_header secret, Print_verify_error msg]\<rparr>
           | Verified stripe_event \<Rightarrow>
               process rt (Construct_event payload sig_header secret) stripe_event)"
  using assms by (simp add: lambda_handler_def Let_def)

lemma handler_without_signature:
  assumes "map_of (environ rt) ''STRIPE_WEBHOOK_SECRET'' = Some secret" "secret \<noteq> []"
  shows "lambda_handler rt event = \<lparr>returned = Inr missing_header, effects = []\<rparr>
         \<longleftrightarrow> signature_header event \<in> {None, Some []}"
  using assms
  by (auto simp: lambda_handler_def Let_def process_def missing_header_def ok_response_def
                 invalid_signature_def verify_error_def
           split: option.splits sum.splits verification.splits)

lemma handler_400_only_missing_header:
  assumes "returned (lambda_handler rt event) = Inr r" "statusCode r = 400"
  shows "lambda_handler rt event = \<lparr>returned = Inr missing_header, effects = []\<rparr>"
  using assms
  by (auto simp: lambda_handler_def Let_def process_def missing_header_def ok_response_def
                 invalid_signature_def verify_error_def missing_secret_def
           split: option.splits sum.splits verification.splits if_splits)

subsection \<open>The signature header lookup\<close>

lemma str_or_falsy_iff:
  "str_or a b \<in> {None, Some []} \<longleftrightarrow> a \<in> {None, Some []} \<and> b \<in> {None, Some []}"
  by (auto simp: str_or_def)

lemma consulted_names:
  "is_signature_name ''stripe-signature''" "is_signature_name ''Stripe-Signature''"
  by (simp_all add: is_signature_name_def str_of_def lower_char_def)

lemma map_of_signature_empty:
  assumes "\<forall>(k, v) \<in> set hs. is_signature_name k \<longrightarrow> v = []" "is_signature_name n"
  shows "map_of hs n \<in> {None, Some []}"
proof (cases "map_of hs n")
  case (Some v)
  then have "(n, v) \<in> set hs" by (rule map_of_SomeD)
  with assms have "v = []" by auto
  with Some show ?thesis by simp
qed simp

lemma no_signature_value:
  assumes "\<forall>(k, v) \<in> set (request_headers event). is_signature_name k \<longrightarrow> v = []"
  shows "signature_header event \<in> {None, Some []}"
  unfolding signature_header_def Let_def str_or_falsy_iff
  using map_of_signature_empty [OF assms] consulted_names by blast

lemma signature_header_body:
  "signature_header (event\<lparr>body := b, isBase64Encoded := f\<rparr>) = signature_header event"
  by (simp add: signature_header_def request_headers_def)

subsection \<open>When normalisation raises\<close>

lemma dict_get_Nil [simp]: "dict_get [] k = JNull"
  by (simp add: dict_get_def)

lemma field_as_dict: "field x k = dict_get (as_dict x) k"
  by (cases x) (simp_all add: field_def as_dict_def)

lemma event_object_iff:
  "event_object ev = Inr obj \<longleftrightarrow>
     (is_mapping (dict_get ev ''data'') \<or> \<not> truthy (dict_get ev ''data''))
     \<and> (is_mapping (field (dict_get ev ''data'') ''object'')
          \<or> \<not> truthy (field (dict_get ev ''data'') ''object''))
     \<and> obj = as_dict (field (dict_get ev ''data'') ''object'')"
proof (cases "dict_get ev ''data''")
  case (JObj d)
  show ?thesis
    by (cases "dict_get d ''object''")
       (auto simp: event_object_def attr_get_def py_or_def JObj field_def is_mapping_def
                   as_dict_def)
qed (auto simp: event_object_def attr_get_def py_or_def field_def is_mapping_def
                as_dict_def)

lemma encode_utf8_ok_iff:
  "(\<exists>b. encode_utf8 s = Inr b) \<longleftrightarrow> list_all (\<lambda>n. \<not> surrogate n) s"
  by (auto simp: encode_utf8_def list_ex_iff list_all_iff)

lemma sha256_token_ok_iff:
  "(\<exists>t. sha256_token rt v = Inr t) \<longleftrightarrow> hashable rt v"
proof (cases v)
  case (JStr s)
  show ?thesis
    using encode_utf8_ok_iff [of "lower rt (strip s)"]
    by (auto simp: JStr sha256_token_def hashable_def split: sum.splits)
qed (auto simp: sha256_token_def hashable_def)

lemma receipt_email_of_iff:
  "receipt_email_of obj = Inr r \<longleftrightarrow>
     (if truthy (dict_get obj ''receipt_email'') then r = dict_get obj ''receipt_email''
      else if truthy (dict_get obj ''customer_email'') then r = dict_get obj ''customer_email''
      else (is_mapping (dict_get obj ''customer_details'')
            \<or> \<not> truthy (dict_get obj ''customer_details''))
           \<and> r = field (dict_get obj ''customer_details'') ''email'')"
  by (cases "dict_get obj ''customer_details''")
     (auto simp: receipt_email_of_def py_or_def attr_get_def field_def is_mapping_def
                 Let_def)

lemma assemble_ok_iff:
  "(\<exists>doc. assemble rt ev obj r = Inr doc) \<longleftrightarrow>
     hashable rt r \<and> hashable rt (dict_get obj ''customer'')"
  using sha256_token_ok_iff [of rt r] sha256_token_ok_iff [of rt "dict_get obj ''customer''"]
  by (auto simp: assemble_def Let_def split: sum.splits)

lemma hashable_truthy: "truthy x \<Longrightarrow> hashable rt x \<Longrightarrow> is_text x"
  by (cases x) (simp_all add: hashable_def is_text_def)

lemma normalize_ok_iff: "(\<exists>doc. normalize rt ev = Inr doc) \<longleftrightarrow> stripe_shaped rt ev"
proof -
  let ?o = "field (dict_get ev ''data'') ''object''"
  have n: "(\<exists>doc. normalize rt ev = Inr doc) \<longleftrightarrow>
           (\<exists>obj r. event_object ev = Inr obj \<and> receipt_email_of obj = Inr r
                    \<and> (\<exists>doc. assemble rt ev obj r = Inr doc))"
    by (auto simp: normalize_def split: sum.splits)
  show ?thesis
    unfolding n assemble_ok_iff event_object_iff receipt_email_of_iff
    by (auto simp: stripe_shaped_def Let_def field_as_dict [of ?o])
qed

lemma normalize_raises_iff: "(\<exists>e. normalize rt ev = Inl e) \<longleftrightarrow> \<not> stripe_shaped rt ev"
  using normalize_ok_iff [of rt ev] by (cases "normalize rt ev") auto

subsection \<open>Runs on the sample inputs\<close>

lemmas handler_defs =
  lambda_handler_def process_def normalize_def event_object_def receipt_email_of_def
  assemble_def sha256_token_def get_raw_body_def signature_header_def request_headers_def
  str_or_def attr_get_def py_or_def dict_get_def field_def unprintable_def refused_def Let_def

lemmas string_defs =
  encode_utf8_def encode_char_def lower_def lower_char_def strip_def isspace_def
  surrogate_def str_of_def

lemmas sample_defs =
  sample_runtime_def sample_construct_event_def sample_request_def sample_stripe_event_def
  sample_object_def odd_stripe_event_def sample_normalized_def event_with_def
  good_request_def odd_request_def forged_request_def not_json_request_def
  unsigned_request_def empty_signature_request_def upper_case_request_def
  surrogate_event_def surrogate_request_def no_secret_runtime_def
  unnamed_event_def unnamed_request_def unnamed_normalized_def memory_runtime_def

lemmas object_defs =
  pi_object_def charge_object_def text_amount_object_def text_amount_normalized_def
  empty_email_object_def email_object_def strip_key_object_def

lemmas reading_defs =
  stripe_shaped_def hashable_def is_mapping_def is_text_def is_integer_def
  amount_minor_of_def payment_intent_id_of_def email_token_of_def customer_id_token_of_def

lemma good_run:
  "lambda_handler sample_runtime good_request =
     \<lparr>returned = Inr ok_response,
      effects = [Construct_event [123, 125] ''t=1,v1=good'' ''whsec_test'',
                 Print_valid_webhook,
                 Print_event_id (JText ''evt_1''),
                 Print_event_type (JText ''checkout.session.completed''),
                 Print_normalized_json sample_normalized]\<rparr>"
  by (simp add: handler_defs string_defs sample_defs)

lemma odd_run:
  "lambda_handler sample_runtime odd_request =
     \<lparr>returned = Inl AttributeError,
      effects = [Construct_event [123, 125] ''t=1,v1=odd'' ''whsec_test'',
                 Print_valid_webhook,
                 Print_event_id (JText ''evt_2''),
                 Print_event_type (JText ''charge.succeeded'')]\<rparr>"
  by (simp add: handler_defs string_defs sample_defs)

lemma upper_case_run:
  "lambda_handler sample_runtime upper_case_request =
     \<lparr>returned = Inr missing_header, effects = []\<rparr>"
  by (simp add: handler_defs string_defs sample_defs)

lemma sample_normalize: "normalize sample_runtime sample_stripe_event = Inr sample_normalized"
  by (simp add: handler_defs string_defs sample_defs)

lemma odd_normalize: "normalize sample_runtime odd_stripe_event = Inl AttributeError"
  by (simp add: handler_defs string_defs sample_defs)

lemma surrogate_normalize: "normalize sample_runtime surrogate_event = Inl UnicodeEncodeError"
  by (simp add: handler_defs string_defs sample_defs)

lemma surrogate_run:
  "lambda_handler sample_runtime surrogate_request =
     \<lparr>returned = Inl UnicodeEncodeError,
      effects = [Construct_event [123, 125] ''t=1,v1=surrogate'' ''whsec_test'',
                 Print_valid_webhook,
                 Print_event_id (JText ''evt_3''),
                 Print_event_type (JText ''payment_intent.succeeded'')]\<rparr>"
  by (simp add: handler_defs string_defs sample_defs)

text \<open>
  An event whose \<open>id\<close> is a lone surrogate: on a strict standard output the second
  \<open>print\<close> raises; on one kept in memory the event is processed to the end.
\<close>

lemma unnamed_run:
  "lambda_handler sample_runtime unnamed_request =
     \<lparr>returned = Inl UnicodeEncodeError,
      effects = [Construct_event [123, 125] ''t=1,v1=unnamed'' ''whsec_test'',
                 Print_valid_webhook]\<rparr>"
  by (simp add: handler_defs string_defs sample_defs)

lemma unnamed_memory_run:
  "lambda_handler memory_runtime unnamed_request =
     \<lparr>returned = Inr ok_response,
      effects = [Construct_event [123, 125] ''t=1,v1=unnamed'' ''whsec_test'',
                 Print_valid_webhook,
                 Print_event_id (JStr [0xD800]),
                 Print_event_type (JText ''ping''),
                 Print_normalized_json unnamed_normalized]\<rparr>"
  by (simp add: handler_defs string_defs sample_defs)

lemma unnamed_normalize: "normalize memory_runtime unnamed_event = Inr unnamed_normalized"
  by (simp add: handler_defs string_defs sample_defs)

lemma sample_verified:
  "construct_event sample_runtime [123, 125] ''t=1,v1=good'' ''whsec_test''
     = Verified sample_stripe_event"
  "construct_event sample_runtime [123, 125] ''t=1,v1=odd'' ''whsec_test''
     = Verified odd_stripe_event"
  "construct_event sample_runtime [123, 125] ''t=1,v1=surrogate'' ''whsec_test''
     = Verified surrogate_event"
  "construct_event sample_runtime [123, 125] ''t=1,v1=unnamed'' ''whsec_test''
     = Verified unnamed_event"
  "construct_event memory_runtime [123, 125] ''t=1,v1=unnamed'' ''whsec_test''
     = Verified unnamed_event"
  "construct_event sample_runtime [123, 125] ''t=1,v1=bad'' ''whsec_test''
     = SignatureVerificationError"
  "construct_event sample_runtime [110, 111, 116, 32, 106, 115, 111, 110] ''t=1,v1=good''
       ''whsec_test''
     = OtherException ''Expecting value: line 1 column 1 (char 0)''"
  by (simp_all add: sample_runtime_def memory_runtime_def sample_construct_event_def)

section \<open>The configuration check\<close>

text \<open>
  C4. If the shared secret is absent from the environment, the handler returns HTTP 500
  at once, whatever the request's headers and body are and whatever the verification
  library would say: the outcome is the 500 response with no effect at all, so
  \<open>construct_event\<close> is not called.
\<close>

theorem secret_absent_500:
  assumes "map_of (environ rt) ''STRIPE_WEBHOOK_SECRET'' = None"
  shows "lambda_handler rt event = \<lparr>returned = Inr missing_secret, effects = []\<rparr>
         \<and> statusCode missing_secret = 500"
  using assms by (simp add: lambda_handler_def missing_secret_def)

text \<open>The sample request carries a signature that would verify; without the secret it gets 500.\<close>

theorem secret_absent_500_witness:
  "map_of (environ no_secret_runtime) ''STRIPE_WEBHOOK_SECRET'' = None
   \<and> lambda_handler no_secret_runtime good_request
       = \<lparr>returned = Inr missing_secret, effects = []\<rparr>
   \<and> statusCode missing_secret = 500"
proof -
  have h: "map_of (environ no_secret_runtime) ''STRIPE_WEBHOOK_SECRET'' = None"
    by (simp add: no_secret_runtime_def)
  show ?thesis using h secret_absent_500 [OF h, of good_request] by simp
qed

section \<open>Verification failures\<close>

text \<open>
  C3. With the secret configured, a signature header found and the body decoded, the
  handler calls the verification library once. If that call raises
  \<open>SignatureVerificationError\<close>, the handler returns HTTP 401 and emits no normalized
  event (it prints the failure note only); if the call raises any other exception, the
  handler returns HTTP 500 whose body is the exception's text.
\<close>

theorem verification_failure_401_500:
  assumes "map_of (environ rt) ''STRIPE_WEBHOOK_SECRET'' = Some secret" "secret \<noteq> []"
      and "signature_header event = Some sig_header" "sig_header \<noteq> []"
      and "get_raw_body rt event = Inr payload"
  shows "(construct_event rt payload sig_header secret = SignatureVerificationError
            \<longrightarrow> lambda_handler rt event =
                  \<lparr>returned = Inr invalid_signature,
                   effects = [Construct_event payload sig_header secret,
                              Print_invalid_signature]\<rparr>
                \<and> normalized_docs (effects (lambda_handler rt event)) = [])
         \<and> (construct_event rt payload sig_header secret = OtherException msg
            \<longrightarrow> lambda_handler rt event =
                  \<lparr>returned = Inr (verify_error msg),
                   effects = [Construct_event payload sig_header secret,
                              Print_verify_error msg]\<rparr>)
         \<and> statusCode invalid_signature = 401
         \<and> statusCode (verify_error msg) = 500
         \<and> response_body (verify_error msg) = msg"
  using handler_verifying [OF assms]
  by (simp add: invalid_signature_def verify_error_def)

text \<open>A forged signature gives 401; a signed body that is not JSON gives 500.\<close>

theorem verification_failure_401_500_witness:
  "lambda_handler sample_runtime forged_request =
     \<lparr>returned = Inr invalid_signature,
      effects = [Construct_event [123, 125] ''t=1,v1=bad'' ''whsec_test'',
                 Print_invalid_signature]\<rparr>
   \<and> lambda_handler sample_runtime not_json_request =
     \<lparr>returned = Inr (verify_error ''Expecting value: line 1 column 1 (char 0)''),
      effects = [Construct_event [110, 111, 116, 32, 106, 115, 111, 110] ''t=1,v1=good''
                   ''whsec_test'',
                 Print_verify_error ''Expecting value: line 1 column 1 (char 0)'']\<rparr>"
proof -
  have secret: "map_of (environ sample_runtime) ''STRIPE_WEBHOOK_SECRET'' = Some ''whsec_test''"
               "''whsec_test'' \<noteq> []"
    by (simp_all add: sample_runtime_def)
  have forged: "signature_header forged_request = Some ''t=1,v1=bad''" "''t=1,v1=bad'' \<noteq> []"
               "get_raw_body sample_runtime forged_request = Inr [123, 125]"
    by (simp_all add: handler_defs string_defs sample_defs)
  have not_json: "signature_header not_json_request = Some ''t=1,v1=good''"
                 "''t=1,v1=good'' \<noteq> []"
                 "get_raw_body sample_runtime not_json_request
                    = Inr [110, 111, 116, 32, 106, 115, 111, 110]"
    by (simp_all add: handler_defs string_defs sample_defs)
  show ?thesis
    using verification_failure_401_500 [OF secret forged]
          verification_failure_401_500
            [OF secret not_json, of "''Expecting value: line 1 column 1 (char 0)''"]
          sample_verified
    by simp
qed

section \<open>Emission of the normalized event\<close>

lemma normalize_exn:
  assumes "normalize rt ev = Inl e"
  shows "e \<in> {AttributeError, TypeError, UnicodeEncodeError}"
proof -
  have token: "x \<in> {AttributeError, TypeError, UnicodeEncodeError}"
    if "sha256_token rt v = Inl x" for v x
    using that
    by (cases v) (auto simp: sha256_token_def encode_utf8_def split: if_splits sum.splits)
  have object: "x = AttributeError" if "event_object ev = Inl x" for x
    using that
    by (auto simp: event_object_def attr_get_def split: json.splits sum.splits)
  have email: "x = AttributeError" if "receipt_email_of obj = Inl x" for obj x
    using that
    by (auto simp: receipt_email_of_def attr_get_def Let_def split: json.splits if_splits)
  from assms show ?thesis
    using token object email
    by (auto simp: normalize_def assemble_def Let_def split: sum.splits)
qed

lemma emittable_iff:
  "emittable rt ev \<longleftrightarrow>
     (\<exists>doc. normalize rt ev = Inr doc \<and> \<not> holds (refused rt) doc)
     \<and> \<not> unprintable rt (dict_get ev ''id'') \<and> \<not> unprintable rt (dict_get ev ''type'')"
  using normalize_ok_iff [of rt ev]
  by (cases "normalize rt ev") (auto simp: emittable_def)

lemma process_emits_iff:
  "normalized_docs (effects (process rt (Construct_event p s k) ev)) = [doc]
   \<longleftrightarrow> emittable rt ev \<and> normalize rt ev = Inr doc"
  unfolding process_docs_iff emittable_iff by auto

lemma process_raises:
  assumes "\<not> emittable rt ev"
  shows "normalized_docs (effects (process rt (Construct_event p s k) ev)) = []
         \<and> (\<exists>e \<in> {AttributeError, TypeError, UnicodeEncodeError}.
               returned (process rt (Construct_event p s k) ev) = Inl e)"
proof -
  have none: "\<not> (\<exists>doc. normalized_docs (effects (process rt (Construct_event p s k) ev)) = [doc])"
    using assms by (simp add: process_emits_iff)
  then have docs: "normalized_docs (effects (process rt (Construct_event p s k) ev)) = []"
    using process_docs_cases [of rt p s k ev] by blast
  have "\<exists>e \<in> {AttributeError, TypeError, UnicodeEncodeError}.
          returned (process rt (Construct_event p s k) ev) = Inl e"
  proof (cases "normalize rt ev")
    case (Inl e)
    then show ?thesis
      using none normalize_exn [OF Inl] by (auto simp: process_returned)
  next
    case (Inr d)
    then show ?thesis
      using none by (simp add: process_returned)
  qed
  with docs show ?thesis by blast
qed

text \<open>
  C1, as stated, fails: a request whose signature verifies can still end in an uncaught
  \<open>AttributeError\<close>, with nothing emitted and no response. Here the signed event's
  \<open>customer\<close> is a number, which \<open>sha256_token\<close> tries to \<open>strip\<close>.
\<close>

theorem verified_but_nothing_emitted:
  "Verified odd_stripe_event
     \<in> set (verifications sample_runtime (effects (lambda_handler sample_runtime odd_request)))
   \<and> normalized_docs (effects (lambda_handler sample_runtime odd_request)) = []
   \<and> returned (lambda_handler sample_runtime odd_request) = Inl AttributeError"
  by (simp add: odd_run sample_verified)

text \<open>
  C1, amended. The handler emits at most one normalized event. It emits exactly one,
  \<open>doc\<close>, when and only when its call of the verification library returned an event
  \<open>ev\<close> that can be processed to the end (\<open>emittable\<close>: it has the shape the
  normalisation code relies on, and nothing printed of it holds a lone surrogate that
  the standard output refuses), and \<open>doc\<close> is then the normalisation of \<open>ev\<close>; in
  that case the handler returns HTTP 200 with body \<open>{"ok": true}\<close> and the header
  \<open>Content-Type: application/json\<close>. When the verified event cannot be processed to
  the end, the handler raises \<open>AttributeError\<close>, \<open>TypeError\<close> or
  \<open>UnicodeEncodeError\<close>: nothing is emitted and no response is returned.
  Normalisation itself raises exactly on the events that are not of the shape.
\<close>

theorem normalized_event_iff_verified:
  "(normalized_docs (effects (lambda_handler rt event)) = [doc]
      \<longleftrightarrow> (\<exists>ev. Verified ev \<in> set (verifications rt (effects (lambda_handler rt event)))
               \<and> emittable rt ev \<and> normalize rt ev = Inr doc))
   \<and> (normalized_docs (effects (lambda_handler rt event)) = [doc]
        \<longrightarrow> returned (lambda_handler rt event) = Inr ok_response)
   \<and> length (normalized_docs (effects (lambda_handler rt event))) \<le> 1
   \<and> (Verified ev \<in> set (verifications rt (effects (lambda_handler rt event)))
        \<and> \<not> emittable rt ev
        \<longrightarrow> normalized_docs (effects (lambda_handler rt event)) = []
            \<and> (\<exists>e \<in> {AttributeError, TypeError, UnicodeEncodeError}.
                  returned (lambda_handler rt event) = Inl e))
   \<and> (emittable rt ev \<longrightarrow> stripe_shaped rt ev)
   \<and> (stripe_shaped rt ev \<longleftrightarrow> (\<exists>d. normalize rt ev = Inr d))
   \<and> statusCode ok_response = 200
   \<and> response_headers ok_response = Some [(''Content-Type'', ''application/json'')]
   \<and> response_body ok_response
        = [CHR ''{'', CHR 0x22, CHR ''o'', CHR ''k'', CHR 0x22, CHR '':'', CHR '' '',
           CHR ''t'', CHR ''r'', CHR ''u'', CHR ''e'', CHR ''}'']"
proof -
  let ?out = "lambda_handler rt event"
  have iff: "normalized_docs (effects ?out) = [doc]
        \<longleftrightarrow> (\<exists>ev. Verified ev \<in> set (verifications rt (effects ?out))
                 \<and> emittable rt ev \<and> normalize rt ev = Inr doc)"
  proof
    assume emitted: "normalized_docs (effects ?out) = [doc]"
    then obtain ev' where v: "Verified ev' \<in> set (verifications rt (effects ?out))"
      using handler_docs_verified by blast
    then obtain p s k where "?out = process rt (Construct_event p s k) ev'"
      using handler_after_verification by blast
    with emitted have "emittable rt ev' \<and> normalize rt ev' = Inr doc"
      by (simp add: process_emits_iff)
    with v show "\<exists>ev. Verified ev \<in> set (verifications rt (effects ?out))
                      \<and> emittable rt ev \<and> normalize rt ev = Inr doc"
      by blast
  next
    assume "\<exists>ev. Verified ev \<in> set (verifications rt (effects ?out))
                 \<and> emittable rt ev \<and> normalize rt ev = Inr doc"
    then obtain ev' where v: "Verified ev' \<in> set (verifications rt (effects ?out))"
                      and e: "emittable rt ev' \<and> normalize rt ev' = Inr doc"
      by blast
    from v obtain p s k where "?out = process rt (Construct_event p s k) ev'"
      using handler_after_verification by blast
    with e show "normalized_docs (effects ?out) = [doc]"
      by (simp add: process_emits_iff)
  qed
  have ok: "returned ?out = Inr ok_response" if emitted: "normalized_docs (effects ?out) = [doc]"
  proof -
    from emitted obtain ev' where "Verified ev' \<in> set (verifications rt (effects ?out))"
      using handler_docs_verified by blast
    then obtain p s k where run: "?out = process rt (Construct_event p s k) ev'"
      using handler_after_verification by blast
    with emitted
    have "\<exists>d. normalized_docs (effects (process rt (Construct_event p s k) ev')) = [d]"
      by auto
    then have "returned (process rt (Construct_event p s k) ev') = Inr ok_response"
      by (simp only: process_returned if_True)
    with run show ?thesis by simp
  qed
  have le1: "length (normalized_docs (effects ?out)) \<le> 1"
  proof (cases "\<exists>d. normalized_docs (effects ?out) = [d]")
    case True
    then show ?thesis by auto
  next
    case False
    have "normalized_docs (effects ?out) = []"
    proof (cases "\<exists>ev'. Verified ev' \<in> set (verifications rt (effects ?out))")
      case True
      then obtain ev' p s k where "?out = process rt (Construct_event p s k) ev'"
        using handler_after_verification by blast
      with False show ?thesis using process_docs_cases [of rt p s k ev'] by auto
    next
      case False
      then show ?thesis
        by (auto simp: lambda_handler_def Let_def process_verifications
                 split: option.splits sum.splits verification.splits if_splits)
    qed
    then show ?thesis by simp
  qed
  have raises: "normalized_docs (effects ?out) = []
                \<and> (\<exists>e \<in> {AttributeError, TypeError, UnicodeEncodeError}. returned ?out = Inl e)"
    if "Verified ev \<in> set (verifications rt (effects ?out)) \<and> \<not> emittable rt ev"
  proof -
    from that obtain p s k where "?out = process rt (Construct_event p s k) ev"
      using handler_after_verification by blast
    with that show ?thesis using process_raises [of rt ev p s k] by simp
  qed
  have shaped: "emittable rt ev \<longrightarrow> stripe_shaped rt ev"
    by (simp add: emittable_def)
  have norm: "stripe_shaped rt ev \<longleftrightarrow> (\<exists>d. normalize rt ev = Inr d)"
    using normalize_ok_iff [of rt ev] by simp
  have resp: "statusCode ok_response = 200
              \<and> response_headers ok_response = Some [(''Content-Type'', ''application/json'')]
              \<and> response_body ok_response
                   = [CHR ''{'', CHR 0x22, CHR ''o'', CHR ''k'', CHR 0x22, CHR '':'', CHR '' '',
                      CHR ''t'', CHR ''r'', CHR ''u'', CHR ''e'', CHR ''}'']"
    by (simp add: ok_response_def)
  from iff ok le1 raises shaped norm resp show ?thesis by blast
qed

text \<open>
  The sample request: verified, one document, HTTP 200. A signed event whose \<open>customer\<close>
  is a number, and one whose \<open>customer\<close> is a lone surrogate: an exception, no document.
  A signed event whose \<open>id\<close> is a lone surrogate: an exception on a strict standard
  output, one document and HTTP 200 on a standard output kept in memory.
\<close>

theorem normalized_event_iff_verified_witness:
  "Verified sample_stripe_event
     \<in> set (verifications sample_runtime (effects (lambda_handler sample_runtime good_request)))
   \<and> emittable sample_runtime sample_stripe_event
   \<and> stripe_shaped sample_runtime sample_stripe_event
   \<and> normalize sample_runtime sample_stripe_event = Inr sample_normalized
   \<and> normalized_docs (effects (lambda_handler sample_runtime good_request))
       = [sample_normalized]
   \<and> returned (lambda_handler sample_runtime good_request) = Inr ok_response
   \<and> Verified odd_stripe_event
       \<in> set (verifications sample_runtime (effects (lambda_handler sample_runtime odd_request)))
   \<and> \<not> emittable sample_runtime odd_stripe_event
   \<and> normalized_docs (effects (lambda_handler sample_runtime odd_request)) = []
   \<and> returned (lambda_handler sample_runtime odd_request) = Inl AttributeError
   \<and> Verified surrogate_event
       \<in> set (verifications sample_runtime
                 (effects (lambda_handler sample_runtime surrogate_request)))
   \<and> \<not> emittable sample_runtime surrogate_event
   \<and> normalized_docs (effects (lambda_handler sample_runtime surrogate_request)) = []
   \<and> returned (lambda_handler sample_runtime surrogate_request) = Inl UnicodeEncodeError
   \<and> Verified unnamed_event
       \<in> set (verifications sample_runtime
                 (effects (lambda_handler sample_runtime unnamed_request)))
   \<and> \<not> emittable sample_runtime unnamed_event
   \<and> normalized_docs (effects (lambda_handler sample_runtime unnamed_request)) = []
   \<and> returned (lambda_handler sample_runtime unnamed_request) = Inl UnicodeEncodeError
   \<and> Verified unnamed_event
       \<in> set (verifications memory_runtime
                 (effects (lambda_handler memory_runtime unnamed_request)))
   \<and> emittable memory_runtime unnamed_event
   \<and> normalized_docs (effects (lambda_handler memory_runtime unnamed_request))
       = [unnamed_normalized]
   \<and> returned (lambda_handler memory_runtime unnamed_request) = Inr ok_response"
proof -
  have v1: "Verified sample_stripe_event
     \<in> set (verifications sample_runtime (effects (lambda_handler sample_runtime good_request)))"
    by (simp add: good_run sample_verified)
  have v2: "Verified odd_stripe_event
     \<in> set (verifications sample_runtime (effects (lambda_handler sample_runtime odd_request)))"
    by (simp add: odd_run sample_verified)
  have v3: "Verified surrogate_event
     \<in> set (verifications sample_runtime
               (effects (lambda_handler sample_runtime surrogate_request)))"
    by (simp add: surrogate_run sample_verified)
  have v4: "Verified unnamed_event
     \<in> set (verifications sample_runtime
               (effects (lambda_handler sample_runtime unnamed_request)))"
    by (simp add: unnamed_run sample_verified)
  have v5: "Verified unnamed_event
     \<in> set (verifications memory_runtime
               (effects (lambda_handler memory_runtime unnamed_request)))"
    by (simp add: unnamed_memory_run sample_verified)
  have n1: "normalize sample_runtime sample_stripe_event = Inr sample_normalized"
    by (rule sample_normalize)
  have n5: "normalize memory_runtime unnamed_event = Inr unnamed_normalized"
    by (rule unnamed_normalize)
  have e4: "\<not> emittable sample_runtime unnamed_event"
    unfolding emittable_iff
    by (simp add: unnamed_event_def sample_runtime_def unprintable_def refused_def
                  surrogate_def dict_get_def str_of_def)
  have e5: "emittable memory_runtime unnamed_event"
    unfolding emittable_iff n5
    by (simp add: unnamed_normalized_def unnamed_event_def memory_runtime_def
                  sample_runtime_def unprintable_def refused_def dict_get_def str_of_def)
  have e1: "emittable sample_runtime sample_stripe_event"
    unfolding emittable_iff n1
    by (simp add: sample_normalized_def sample_stripe_event_def handler_defs)
  have e2: "\<not> emittable sample_runtime odd_stripe_event"
    unfolding emittable_iff using odd_normalize by simp
  have e3: "\<not> emittable sample_runtime surrogate_event"
    unfolding emittable_iff using surrogate_normalize by simp
  note t1 = normalized_event_iff_verified
              [of sample_runtime good_request sample_normalized sample_stripe_event]
  note t2 = normalized_event_iff_verified
              [of sample_runtime odd_request sample_normalized odd_stripe_event]
  note t3 = normalized_event_iff_verified
              [of sample_runtime surrogate_request sample_normalized surrogate_event]
  from t1 v1 e1 n1
  have g: "stripe_shaped sample_runtime sample_stripe_event
           \<and> normalized_docs (effects (lambda_handler sample_runtime good_request))
               = [sample_normalized]
           \<and> returned (lambda_handler sample_runtime good_request) = Inr ok_response"
    by blast
  from t2 v2 e2
  have o: "normalized_docs (effects (lambda_handler sample_runtime odd_request)) = []"
    by blast
  from t3 v3 e3
  have s: "normalized_docs (effects (lambda_handler sample_runtime surrogate_request)) = []"
    by blast
  note t4 = normalized_event_iff_verified
              [of sample_runtime unnamed_request unnamed_normalized unnamed_event]
  note t5 = normalized_event_iff_verified
              [of memory_runtime unnamed_request unnamed_normalized unnamed_event]
  from t4 v4 e4
  have u: "normalized_docs (effects (lambda_handler sample_runtime unnamed_request)) = []"
    by blast
  from t5 v5 e5 n5
  have m: "normalized_docs (effects (lambda_handler memory_runtime unnamed_request))
             = [unnamed_normalized]
           \<and> returned (lambda_handler memory_runtime unnamed_request) = Inr ok_response"
    by blast
  have ru: "returned (lambda_handler sample_runtime unnamed_request) = Inl UnicodeEncodeError"
    by (simp add: unnamed_run)
  have ro: "returned (lambda_handler sample_runtime odd_request) = Inl AttributeError"
    by (simp add: odd_run)
  have rs: "returned (lambda_handler sample_runtime surrogate_request) = Inl UnicodeEncodeError"
    by (simp add: surrogate_run)
  from v1 v2 v3 v4 v5 n1 e1 e2 e3 e4 e5 g o s u m ro rs ru show ?thesis by blast
qed

section \<open>The missing signature header\<close>

text \<open>
  C2, as stated, fails in two ways. Without the shared secret a request with no signature
  header is answered 500, not 400. And the lookup is not case-insensitive: only the
  spellings \<open>stripe-signature\<close> and \<open>Stripe-Signature\<close> are consulted, so a request
  that carries a good signature under \<open>STRIPE-SIGNATURE\<close> is answered 400.
\<close>

theorem missing_header_400_counterexample:
  "request_headers unsigned_request = [(''Content-Type'', ''application/json'')]
   \<and> \<not> is_signature_name ''Content-Type''
   \<and> returned (lambda_handler no_secret_runtime unsigned_request) = Inr missing_secret
   \<and> statusCode missing_secret = 500
   \<and> request_headers upper_case_request = [(''STRIPE-SIGNATURE'', ''t=1,v1=good'')]
   \<and> is_signature_name ''STRIPE-SIGNATURE''
   \<and> returned (lambda_handler sample_runtime upper_case_request) = Inr missing_header
   \<and> statusCode missing_header = 400"
proof -
  have "request_headers unsigned_request = [(''Content-Type'', ''application/json'')]"
       "request_headers upper_case_request = [(''STRIPE-SIGNATURE'', ''t=1,v1=good'')]"
    by (simp_all add: request_headers_def unsigned_request_def upper_case_request_def
                      sample_request_def)
  moreover have "\<not> is_signature_name ''Content-Type''" "is_signature_name ''STRIPE-SIGNATURE''"
    by (simp_all add: is_signature_name_def str_of_def lower_char_def)
  moreover have "returned (lambda_handler no_secret_runtime unsigned_request) = Inr missing_secret"
    by (simp add: lambda_handler_def no_secret_runtime_def)
  ultimately show ?thesis
    by (simp add: upper_case_run missing_secret_def missing_header_def)
qed

text \<open>
  C2, amended. With the shared secret configured: a request that has no signature header
  under any casing of the name (or only empty ones) is answered HTTP 400, and nothing
  else happens; a request answered 400 has no non-empty value under
  \<open>stripe-signature\<close> or \<open>Stripe-Signature\<close>; and the answer to such a request stays
  the same whatever its body and its base64 flag are changed to.
\<close>

theorem missing_header_400:
  assumes "map_of (environ rt) ''STRIPE_WEBHOOK_SECRET'' = Some secret" "secret \<noteq> []"
  shows "((\<forall>(k, v) \<in> set (request_headers event). is_signature_name k \<longrightarrow> v = [])
            \<longrightarrow> lambda_handler rt event = \<lparr>returned = Inr missing_header, effects = []\<rparr>)
         \<and> (returned (lambda_handler rt event) = Inr r \<and> statusCode r = 400
            \<longrightarrow> r = missing_header
                \<and> map_of (request_headers event) ''stripe-signature'' \<in> {None, Some []}
                \<and> map_of (request_headers event) ''Stripe-Signature'' \<in> {None, Some []})
         \<and> (returned (lambda_handler rt event) = Inr r \<and> statusCode r = 400
            \<longrightarrow> lambda_handler rt (event\<lparr>body := b, isBase64Encoded := f\<rparr>)
                  = lambda_handler rt event)
         \<and> statusCode missing_header = 400"
proof -
  have a: "lambda_handler rt event = \<lparr>returned = Inr missing_header, effects = []\<rparr>"
    if "\<forall>(k, v) \<in> set (request_headers event). is_signature_name k \<longrightarrow> v = []"
    using handler_without_signature [OF assms] no_signature_value [OF that] by simp
  have b: "r = missing_header \<and> signature_header event \<in> {None, Some []}"
    if "returned (lambda_handler rt event) = Inr r" "statusCode r = 400"
  proof -
    have run: "lambda_handler rt event = \<lparr>returned = Inr missing_header, effects = []\<rparr>"
      using that by (rule handler_400_only_missing_header)
    with that(1) have "r = missing_header" by simp
    moreover from run have "signature_header event \<in> {None, Some []}"
      using handler_without_signature [OF assms] by simp
    ultimately show ?thesis by simp
  qed
  have c: "lambda_handler rt (event\<lparr>body := b, isBase64Encoded := f\<rparr>) = lambda_handler rt event"
    if "returned (lambda_handler rt event) = Inr r" "statusCode r = 400"
  proof -
    have s: "signature_header event \<in> {None, Some []}" using b [OF that] by simp
    then have "signature_header (event\<lparr>body := b, isBase64Encoded := f\<rparr>) \<in> {None, Some []}"
      by (simp only: signature_header_body)
    with s show ?thesis
      using handler_without_signature [OF assms, of event]
            handler_without_signature [OF assms, of "event\<lparr>body := b, isBase64Encoded := f\<rparr>"]
      by simp
  qed
  from b have b': "r = missing_header
                   \<and> map_of (request_headers event) ''stripe-signature'' \<in> {None, Some []}
                   \<and> map_of (request_headers event) ''Stripe-Signature'' \<in> {None, Some []}"
    if "returned (lambda_handler rt event) = Inr r" "statusCode r = 400"
    using that unfolding signature_header_def Let_def str_or_falsy_iff by blast
  have st: "statusCode missing_header = 400"
    by (simp add: missing_header_def)
  show ?thesis using a b' c st by blast
qed

text \<open>A request with no signature header at all, under the sample runtime.\<close>

theorem missing_header_400_witness:
  "map_of (environ sample_runtime) ''STRIPE_WEBHOOK_SECRET'' = Some ''whsec_test''
   \<and> lambda_handler sample_runtime unsigned_request
       = \<lparr>returned = Inr missing_header, effects = []\<rparr>
   \<and> statusCode missing_header = 400
   \<and> map_of (request_headers unsigned_request) ''stripe-signature'' = None
   \<and> map_of (request_headers unsigned_request) ''Stripe-Signature'' = None
   \<and> lambda_handler sample_runtime
        (unsigned_request\<lparr>body := Value (str_of ''not json''), isBase64Encoded := Value True\<rparr>)
       = \<lparr>returned = Inr missing_header, effects = []\<rparr>"
proof -
  have secret: "map_of (environ sample_runtime) ''STRIPE_WEBHOOK_SECRET'' = Some ''whsec_test''"
               "''whsec_test'' \<noteq> []"
    by (simp_all add: sample_runtime_def)
  have hs: "request_headers unsigned_request = [(''Content-Type'', ''application/json'')]"
    by (simp add: request_headers_def unsigned_request_def sample_request_def)
  have "\<not> is_signature_name ''Content-Type''"
    by (simp add: is_signature_name_def str_of_def lower_char_def)
  then have none: "\<forall>(k, v) \<in> set (request_headers unsigned_request). is_signature_name k \<longrightarrow> v = []"
    by (simp add: hs)
  note t = missing_header_400
             [OF secret, where event = unsigned_request and r = missing_header
                           and b = "Value (str_of ''not json'')" and f = "Value True"]
  from t none
  have run: "lambda_handler sample_runtime unsigned_request
               = \<lparr>returned = Inr missing_header, effects = []\<rparr>"
    by blast
  then have r: "returned (lambda_handler sample_runtime unsigned_request) = Inr missing_header"
    by simp
  have st: "statusCode missing_header = 400"
    by (simp add: missing_header_def)
  from t r st
  have "lambda_handler sample_runtime
          (unsigned_request\<lparr>body := Value (str_of ''not json''), isBase64Encoded := Value True\<rparr>)
        = lambda_handler sample_runtime unsigned_request"
    by blast
  then have changed: "lambda_handler sample_runtime
          (unsigned_request\<lparr>body := Value (str_of ''not json''), isBase64Encoded := Value True\<rparr>)
        = \<lparr>returned = Inr missing_header, effects = []\<rparr>"
    using run by (rule trans)
  have m: "map_of (request_headers unsigned_request) ''stripe-signature'' = None"
          "map_of (request_headers unsigned_request) ''Stripe-Signature'' = None"
    by (simp_all add: hs)
  show ?thesis using secret(1) run st m changed by blast
qed

section \<open>The empty signature header\<close>

text \<open>
  C10, as stated, fails: when the shared secret is not configured, a request whose
  signature header is present and empty is answered 500, not 400.
\<close>

theorem empty_signature_counterexample:
  "request_headers empty_signature_request = [(''Stripe-Signature'', [])]
   \<and> returned (lambda_handler no_secret_runtime empty_signature_request) = Inr missing_secret
   \<and> statusCode missing_secret = 500"
  by (simp add: lambda_handler_def no_secret_runtime_def missing_secret_def
                request_headers_def empty_signature_request_def sample_request_def)

text \<open>
  C10, amended. With the shared secret configured, a request whose signature header is
  present with an empty value (and has no other value under another casing of the name)
  is treated as one without the header: the answer is HTTP 400, not 401, and the
  verification library is not called.
\<close>

theorem empty_signature_400:
  assumes "map_of (environ rt) ''STRIPE_WEBHOOK_SECRET'' = Some secret" "secret \<noteq> []"
      and "(k, []) \<in> set (request_headers event)" "is_signature_name k"
      and "\<forall>(k', v) \<in> set (request_headers event). is_signature_name k' \<longrightarrow> v = []"
  shows "lambda_handler rt event = \<lparr>returned = Inr missing_header, effects = []\<rparr>
         \<and> statusCode missing_header = 400
         \<and> verifications rt (effects (lambda_handler rt event)) = []"
proof -
  have "signature_header event \<in> {None, Some []}"
    using assms(5) by (rule no_signature_value)
  then have "lambda_handler rt event = \<lparr>returned = Inr missing_header, effects = []\<rparr>"
    using handler_without_signature [OF assms(1,2)] by simp
  then show ?thesis by (simp add: missing_header_def)
qed

theorem empty_signature_400_witness:
  "(''Stripe-Signature'', []) \<in> set (request_headers empty_signature_request)
   \<and> is_signature_name ''Stripe-Signature''
   \<and> lambda_handler sample_runtime empty_signature_request
       = \<lparr>returned = Inr missing_header, effects = []\<rparr>
   \<and> statusCode missing_header = 400
   \<and> verifications sample_runtime (effects (lambda_handler sample_runtime empty_signature_request))
       = []"
proof -
  have secret: "map_of (environ sample_runtime) ''STRIPE_WEBHOOK_SECRET'' = Some ''whsec_test''"
               "''whsec_test'' \<noteq> []"
    by (simp_all add: sample_runtime_def)
  have hs: "request_headers empty_signature_request = [(''Stripe-Signature'', [])]"
    by (simp add: request_headers_def empty_signature_request_def sample_request_def)
  have present: "(''Stripe-Signature'', []) \<in> set (request_headers empty_signature_request)"
    by (simp add: hs)
  have name: "is_signature_name ''Stripe-Signature''"
    by (rule consulted_names)
  have empty: "\<forall>(k', v) \<in> set (request_headers empty_signature_request).
                 is_signature_name k' \<longrightarrow> v = []"
    by (simp add: hs)
  show ?thesis
    using empty_signature_400 [OF secret present name empty] present name by simp
qed

section \<open>The fields of the normalized event\<close>

lemma normalize_document:
  assumes "normalize rt stripe_event = Inr doc" "event_object stripe_event = Inr obj"
  shows "\<exists>receipt_email.
           receipt_email_of obj = Inr receipt_email
           \<and> assemble rt stripe_event obj receipt_email = Inr doc"
  using assms
  by (auto simp: normalize_def split: sum.splits)

lemma assemble_amount_minor:
  assumes "assemble rt stripe_event obj receipt_email = Inr doc"
  shows "amount_minor_of doc =
           py_or (py_or (py_or (dict_get obj ''amount_received'') (dict_get obj ''amount''))
                        (dict_get obj ''amount_total''))
                 (JInt 0)"
  using assms
  by (auto simp: assemble_def Let_def amount_minor_of_def field_def dict_get_def
           split: sum.splits)

lemma assemble_payment_intent_id:
  assumes "assemble rt stripe_event obj receipt_email = Inr doc"
  shows "payment_intent_id_of doc =
           (if dict_get obj ''object'' \<noteq> JText ''payment_intent''
            then dict_get obj ''payment_intent'' else dict_get obj ''id'')"
  using assms
  by (auto simp: assemble_def Let_def payment_intent_id_of_def field_def dict_get_def
           split: sum.splits)

lemma assemble_pii:
  assumes "assemble rt stripe_event obj receipt_email = Inr doc"
  shows "field doc ''pii'' = JObj (dict_of [(''email_token'', email_token_of doc),
                                            (''customer_id_token'', customer_id_token_of doc)])
         \<and> sha256_token rt receipt_email = Inr (email_token_of doc)
         \<and> sha256_token rt (dict_get obj ''customer'') = Inr (customer_id_token_of doc)"
  using assms
  by (auto simp: assemble_def Let_def email_token_of_def customer_id_token_of_def field_def
                 dict_get_def
           split: sum.splits)

lemma py_or_chain:
  "py_or (py_or (py_or a b) c) d = first_non_empty [a, b, c] d"
  by (simp add: py_or_def)

lemma dict_get_absent: "map_of d (str_of k) = None \<Longrightarrow> dict_get d k = JNull"
  by (simp add: dict_get_def)

lemma first_non_empty_integer:
  assumes "\<forall>x \<in> set xs. x = JNull \<or> is_integer x" "is_integer d"
  shows "is_integer (first_non_empty xs d)"
  using assms by (induction xs) auto

subsection \<open>The amount\<close>

text \<open>
  C5, as stated, fails in its last part: the amount is passed through as it is, so an
  amount that the event carries as text reaches the normalized record as text.
\<close>

theorem amount_minor_not_integer:
  "normalize sample_runtime (event_with text_amount_object) = Inr text_amount_normalized
   \<and> amount_minor_of text_amount_normalized = JText ''12''
   \<and> \<not> is_integer (amount_minor_of text_amount_normalized)"
  by (simp add: handler_defs string_defs sample_defs object_defs reading_defs)

text \<open>
  C5, amended. In the normalized record of a verified event, \<open>amount_minor\<close> is the first
  non-empty, non-zero value among the object's \<open>amount_received\<close>, \<open>amount\<close> and
  \<open>amount_total\<close>, and the integer 0 when there is none, in particular when all three
  are absent. It is an integer whenever each of the three fields is absent, null or an
  integer.
\<close>

theorem amount_minor_first_non_empty:
  assumes "normalize rt stripe_event = Inr doc" "event_object stripe_event = Inr obj"
  shows "amount_minor_of doc =
           first_non_empty [dict_get obj ''amount_received'', dict_get obj ''amount'',
                            dict_get obj ''amount_total''] (JInt 0)
         \<and> (map_of obj (str_of ''amount_received'') = None \<and> map_of obj (str_of ''amount'') = None
              \<and> map_of obj (str_of ''amount_total'') = None
            \<longrightarrow> amount_minor_of doc = JInt 0)
         \<and> ((\<forall>k \<in> set [''amount_received'', ''amount'', ''amount_total''].
                dict_get obj k = JNull \<or> is_integer (dict_get obj k))
            \<longrightarrow> is_integer (amount_minor_of doc))"
proof -
  let ?xs = "[dict_get obj ''amount_received'', dict_get obj ''amount'',
              dict_get obj ''amount_total'']"
  obtain r where "assemble rt stripe_event obj r = Inr doc"
    using normalize_document [OF assms] by blast
  then have eq: "amount_minor_of doc = first_non_empty ?xs (JInt 0)"
    by (simp only: assemble_amount_minor py_or_chain)
  have absent: "amount_minor_of doc = JInt 0"
    if "map_of obj (str_of ''amount_received'') = None \<and> map_of obj (str_of ''amount'') = None
        \<and> map_of obj (str_of ''amount_total'') = None"
    using that by (simp add: eq dict_get_absent)
  have int: "is_integer (amount_minor_of doc)"
    if "\<forall>k \<in> set [''amount_received'', ''amount'', ''amount_total''].
          dict_get obj k = JNull \<or> is_integer (dict_get obj k)"
  proof -
    from that have "\<forall>x \<in> set ?xs. x = JNull \<or> is_integer x" by simp
    then have "is_integer (first_non_empty ?xs (JInt 0))"
      by (rule first_non_empty_integer) (simp add: is_integer_def)
    then show ?thesis by (simp only: eq)
  qed
  from eq absent int show ?thesis by blast
qed

text \<open>
  An object with \<open>amount_received = 1000\<close> and no other amount gives 1000; an object
  with none of the three gives 0.
\<close>

theorem amount_minor_first_non_empty_witness:
  "(\<exists>doc. normalize sample_runtime (event_with pi_object) = Inr doc
          \<and> event_object (event_with pi_object) = Inr pi_object
          \<and> amount_minor_of doc = JInt 1000 \<and> is_integer (amount_minor_of doc))
   \<and> (\<exists>doc. normalize sample_runtime (event_with charge_object) = Inr doc
          \<and> event_object (event_with charge_object) = Inr charge_object
          \<and> map_of charge_object (str_of ''amount_received'') = None
          \<and> map_of charge_object (str_of ''amount'') = None
          \<and> map_of charge_object (str_of ''amount_total'') = None
          \<and> amount_minor_of doc = JInt 0 \<and> is_integer (amount_minor_of doc))"
proof -
  have shaped: "stripe_shaped sample_runtime (event_with pi_object)" "stripe_shaped sample_runtime (event_with charge_object)"
    by (simp_all add: handler_defs string_defs sample_defs object_defs reading_defs)
  obtain d1 where d1: "normalize sample_runtime (event_with pi_object) = Inr d1"
    using shaped(1) normalize_ok_iff by blast
  obtain d2 where d2: "normalize sample_runtime (event_with charge_object) = Inr d2"
    using shaped(2) normalize_ok_iff by blast
  have o1: "event_object (event_with pi_object) = Inr pi_object"
   and o2: "event_object (event_with charge_object) = Inr charge_object"
    by (simp_all add: handler_defs string_defs sample_defs object_defs reading_defs)
  have g1: "first_non_empty [dict_get pi_object ''amount_received'', dict_get pi_object ''amount'',
                             dict_get pi_object ''amount_total''] (JInt 0) = JInt 1000"
    by (simp add: handler_defs string_defs sample_defs object_defs reading_defs)
  have i1: "\<forall>k \<in> set [''amount_received'', ''amount'', ''amount_total''].
              dict_get pi_object k = JNull \<or> is_integer (dict_get pi_object k)"
    by (simp add: handler_defs string_defs sample_defs object_defs reading_defs)
  have a2: "map_of charge_object (str_of ''amount_received'') = None"
           "map_of charge_object (str_of ''amount'') = None"
           "map_of charge_object (str_of ''amount_total'') = None"
    by (simp_all add: charge_object_def)
  have i2: "\<forall>k \<in> set [''amount_received'', ''amount'', ''amount_total''].
              dict_get charge_object k = JNull \<or> is_integer (dict_get charge_object k)"
    by (simp add: handler_defs string_defs sample_defs object_defs reading_defs)
  note t1 = amount_minor_first_non_empty [OF d1 o1]
  note t2 = amount_minor_first_non_empty [OF d2 o2]
  from t1 have "amount_minor_of d1 =
                  first_non_empty [dict_get pi_object ''amount_received'',
                                   dict_get pi_object ''amount'',
                                   dict_get pi_object ''amount_total''] (JInt 0)"
    by (rule conjunct1)
  then have "amount_minor_of d1 = JInt 1000"
    using g1 by (rule trans)
  moreover from t1 i1 have "is_integer (amount_minor_of d1)"
    by blast
  moreover from t2 a2 i2 have "amount_minor_of d2 = JInt 0 \<and> is_integer (amount_minor_of d2)"
    by blast
  ultimately show ?thesis using d1 d2 o1 o2 a2 by blast
qed

subsection \<open>The payment intent id\<close>

text \<open>
  C6. In the normalized record of a verified event, \<open>payment_intent_id\<close> is the object's
  own \<open>id\<close> when the object's type tag (its \<open>object\<close> field) equals
  \<open>"payment_intent"\<close>, whatever its \<open>payment_intent\<close> field holds, and the object's
  \<open>payment_intent\<close> field otherwise.
\<close>

theorem payment_intent_id_disambiguation:
  assumes "normalize rt stripe_event = Inr doc" "event_object stripe_event = Inr obj"
  shows "payment_intent_id_of doc =
           (if dict_get obj ''object'' = JText ''payment_intent''
            then dict_get obj ''id'' else dict_get obj ''payment_intent'')"
proof -
  obtain r where "assemble rt stripe_event obj r = Inr doc"
    using normalize_document [OF assms] by blast
  then show ?thesis by (simp add: assemble_payment_intent_id)
qed

text \<open>
  A payment intent \<open>pi_1\<close> that also has a \<open>payment_intent\<close> field gives \<open>pi_1\<close>; a
  charge with \<open>payment_intent = pi_2\<close> gives \<open>pi_2\<close>.
\<close>

theorem payment_intent_id_disambiguation_witness:
  "(\<exists>doc. normalize sample_runtime (event_with pi_object) = Inr doc
          \<and> event_object (event_with pi_object) = Inr pi_object
          \<and> dict_get pi_object ''payment_intent'' = JText ''pi_other''
          \<and> payment_intent_id_of doc = JText ''pi_1'')
   \<and> (\<exists>doc. normalize sample_runtime (event_with charge_object) = Inr doc
          \<and> event_object (event_with charge_object) = Inr charge_object
          \<and> payment_intent_id_of doc = JText ''pi_2'')"
proof -
  have shaped: "stripe_shaped sample_runtime (event_with pi_object)" "stripe_shaped sample_runtime (event_with charge_object)"
    by (simp_all add: handler_defs string_defs sample_defs object_defs reading_defs)
  obtain d1 where d1: "normalize sample_runtime (event_with pi_object) = Inr d1"
    using shaped(1) normalize_ok_iff by blast
  obtain d2 where d2: "normalize sample_runtime (event_with charge_object) = Inr d2"
    using shaped(2) normalize_ok_iff by blast
  have o1: "event_object (event_with pi_object) = Inr pi_object"
   and o2: "event_object (event_with charge_object) = Inr charge_object"
    by (simp_all add: handler_defs string_defs sample_defs object_defs reading_defs)
  have g1: "(if dict_get pi_object ''object'' = JText ''payment_intent''
             then dict_get pi_object ''id'' else dict_get pi_object ''payment_intent'')
            = JText ''pi_1''"
    by (simp add: handler_defs string_defs sample_defs object_defs reading_defs)
  have g2: "(if dict_get charge_object ''object'' = JText ''payment_intent''
             then dict_get charge_object ''id'' else dict_get charge_object ''payment_intent'')
            = JText ''pi_2''"
    by (simp add: handler_defs string_defs sample_defs object_defs reading_defs)
  have other: "dict_get pi_object ''payment_intent'' = JText ''pi_other''"
    by (simp add: handler_defs string_defs sample_defs object_defs reading_defs)
  have "payment_intent_id_of d1 = JText ''pi_1''"
    using payment_intent_id_disambiguation [OF d1 o1] g1 by (rule trans)
  moreover have "payment_intent_id_of d2 = JText ''pi_2''"
    using payment_intent_id_disambiguation [OF d2 o2] g2 by (rule trans)
  ultimately show ?thesis using d1 d2 o1 o2 other by blast
qed

subsection \<open>The receipt e-mail\<close>

text \<open>
  C7, as stated, fails in its last part: when none of the three values is non-empty,
  \<open>receipt_email\<close> is the nested \<open>customer_details.email\<close> as it is, which may be the
  empty string rather than absent.
\<close>

theorem receipt_email_empty_not_absent:
  "receipt_email_of empty_email_object = Inr (JStr [])
   \<and> first_non_empty [dict_get empty_email_object ''receipt_email'',
                       dict_get empty_email_object ''customer_email'',
                       field (dict_get empty_email_object ''customer_details'') ''email''] JNull
       = JNull
   \<and> JStr [] \<noteq> JNull"
  by (simp add: handler_defs string_defs sample_defs object_defs reading_defs)

text \<open>
  C7, amended. When the e-mail derivation does not raise, \<open>receipt_email\<close> is the first
  non-empty value among the object's \<open>receipt_email\<close>, its \<open>customer_email\<close> and the
  \<open>email\<close> nested in its \<open>customer_details\<close>; when none of the three is non-empty it
  is the nested \<open>email\<close> as it is, hence absent or empty (absent when all three are
  absent), and its token is absent. The e-mail token of the normalized record is the
  token of that value.
\<close>

theorem receipt_email_first_non_empty:
  assumes "receipt_email_of obj = Inr r"
  shows "r = first_non_empty [dict_get obj ''receipt_email'', dict_get obj ''customer_email'',
                              field (dict_get obj ''customer_details'') ''email'']
                             (field (dict_get obj ''customer_details'') ''email'')
         \<and> (\<not> truthy (dict_get obj ''receipt_email'') \<and> \<not> truthy (dict_get obj ''customer_email'')
              \<and> \<not> truthy (field (dict_get obj ''customer_details'') ''email'')
            \<longrightarrow> \<not> truthy r \<and> sha256_token rt r = Inr JNull)
         \<and> (map_of obj (str_of ''receipt_email'') = None \<and> map_of obj (str_of ''customer_email'') = None
              \<and> map_of obj (str_of ''customer_details'') = None
            \<longrightarrow> r = JNull)
         \<and> (normalize rt stripe_event = Inr doc \<and> event_object stripe_event = Inr obj
            \<longrightarrow> sha256_token rt r = Inr (email_token_of doc))"
proof -
  let ?nested = "field (dict_get obj ''customer_details'') ''email''"
  have eq: "r = first_non_empty [dict_get obj ''receipt_email'', dict_get obj ''customer_email'',
                                 ?nested] ?nested"
    using assms unfolding receipt_email_of_iff by (simp split: if_splits)
  have falsy: "\<not> truthy r \<and> sha256_token rt r = Inr JNull"
    if "\<not> truthy (dict_get obj ''receipt_email'') \<and> \<not> truthy (dict_get obj ''customer_email'')
        \<and> \<not> truthy ?nested"
    using that by (simp add: eq sha256_token_def)
  have absent: "r = JNull"
    if "map_of obj (str_of ''receipt_email'') = None \<and> map_of obj (str_of ''customer_email'') = None
        \<and> map_of obj (str_of ''customer_details'') = None"
    using that by (simp add: eq dict_get_absent field_def)
  have token: "sha256_token rt r = Inr (email_token_of doc)"
    if h: "normalize rt stripe_event = Inr doc \<and> event_object stripe_event = Inr obj"
  proof -
    obtain r' where r': "receipt_email_of obj = Inr r'"
                         "assemble rt stripe_event obj r' = Inr doc"
      using normalize_document [of rt stripe_event doc obj] h by blast
    with assms have "r' = r" by simp
    with r'(2) show ?thesis by (simp add: assemble_pii)
  qed
  from eq falsy absent token show ?thesis by blast
qed

text \<open>
  An object whose \<open>receipt_email\<close> is null takes its \<open>customer_email\<close>, although a
  nested e-mail is there too; an object with only an empty nested e-mail has an empty
  \<open>receipt_email\<close> and no token; an object with none of the three has none.
\<close>

theorem receipt_email_first_non_empty_witness:
  "receipt_email_of email_object = Inr (JText ''c@d.org'')
   \<and> receipt_email_of empty_email_object = Inr (JStr [])
   \<and> sha256_token sample_runtime (JStr []) = Inr JNull
   \<and> map_of charge_object (str_of ''receipt_email'') = None
   \<and> map_of charge_object (str_of ''customer_email'') = None
   \<and> map_of charge_object (str_of ''customer_details'') = None
   \<and> receipt_email_of charge_object = Inr JNull
   \<and> (\<exists>doc. normalize sample_runtime (event_with email_object) = Inr doc
          \<and> sha256_token sample_runtime (JText ''c@d.org'') = Inr (email_token_of doc))"
proof -
  have r1: "receipt_email_of email_object = Inr (JText ''c@d.org'')"
   and r2: "receipt_email_of empty_email_object = Inr (JStr [])"
   and r3: "receipt_email_of charge_object = Inr JNull"
    by (simp_all add: handler_defs string_defs sample_defs object_defs reading_defs)
  have falsy: "\<not> truthy (dict_get empty_email_object ''receipt_email'')
               \<and> \<not> truthy (dict_get empty_email_object ''customer_email'')
               \<and> \<not> truthy (field (dict_get empty_email_object ''customer_details'') ''email'')"
    by (simp add: handler_defs string_defs sample_defs object_defs reading_defs)
  have absent: "map_of charge_object (str_of ''receipt_email'') = None
                \<and> map_of charge_object (str_of ''customer_email'') = None
                \<and> map_of charge_object (str_of ''customer_details'') = None"
    by (simp add: charge_object_def)
  have "stripe_shaped sample_runtime (event_with email_object)"
    by (simp add: handler_defs string_defs sample_defs object_defs reading_defs)
  then obtain d where d: "normalize sample_runtime (event_with email_object) = Inr d"
    using normalize_ok_iff by blast
  have o: "event_object (event_with email_object) = Inr email_object"
    by (simp add: handler_defs string_defs sample_defs object_defs reading_defs)
  from receipt_email_first_non_empty [OF r2, of sample_runtime] falsy
  have t2: "sha256_token sample_runtime (JStr []) = Inr JNull" by blast
  from receipt_email_first_non_empty
         [OF r1, where rt = sample_runtime and stripe_event = "event_with email_object"
                   and doc = d] d o
  have t1: "sha256_token sample_runtime (JText ''c@d.org'') = Inr (email_token_of d)" by blast
  from r1 r2 r3 t1 t2 d absent show ?thesis by blast
qed

section \<open>Tokenization\<close>

subsection \<open>The hexadecimal rendering\<close>

lemma hexdigest_length: "length (hexdigest w) = 64"
  by (simp add: hexdigest_def)

lemma hex_digit_in: "hex_digit n \<in> set ''0123456789abcdef''"
proof -
  have "n mod 16 < length ''0123456789abcdef''" by simp
  then show ?thesis unfolding hex_digit_def by (rule nth_mem)
qed

lemma hexdigest_chars: "set (hexdigest w) \<subseteq> set ''0123456789abcdef''"
  unfolding hexdigest_def using hex_digit_in by auto

lemma hex_digit_inj: "hex_digit a = hex_digit b \<Longrightarrow> a mod 16 = b mod 16"
proof -
  assume e: "hex_digit a = hex_digit b"
  have d: "distinct ''0123456789abcdef''" by simp
  have "a mod 16 < length ''0123456789abcdef''" "b mod 16 < length ''0123456789abcdef''"
    by simp_all
  with d e show ?thesis unfolding hex_digit_def by (simp only: nth_eq_iff_index_eq)
qed

lemma nibble_eq:
  fixes v w :: "256 word"
  assumes "hexdigest v = hexdigest w" "k < 64"
  shows "take_bit 4 (drop_bit (4 * k) v) = take_bit 4 (drop_bit (4 * k) w)"
proof -
  from assms(1) have "\<forall>i \<in> set [0..<64].
      hex_digit (unat (drop_bit (4 * (63 - i)) v)) = hex_digit (unat (drop_bit (4 * (63 - i)) w))"
    unfolding hexdigest_def by (simp only: map_eq_conv)
  moreover from assms(2) have "63 - k \<in> set [0..<64]" by simp
  ultimately have "hex_digit (unat (drop_bit (4 * (63 - (63 - k))) v))
                 = hex_digit (unat (drop_bit (4 * (63 - (63 - k))) w))"
    by blast
  moreover from assms(2) have "63 - (63 - k) = k" by simp
  ultimately have "hex_digit (unat (drop_bit (4 * k) v)) = hex_digit (unat (drop_bit (4 * k) w))"
    by simp
  then have "unat (drop_bit (4 * k) v) mod 16 = unat (drop_bit (4 * k) w) mod 16"
    by (rule hex_digit_inj)
  moreover have "unat (take_bit 4 x) = unat x mod 16" for x :: "256 word"
    by (subst unsigned_take_bit_eq) (simp add: take_bit_eq_mod)
  ultimately have "unat (take_bit 4 (drop_bit (4 * k) v)) = unat (take_bit 4 (drop_bit (4 * k) w))"
    by (simp only:)
  then show ?thesis by (rule unsigned_word_eqI)
qed

text \<open>The digest can be read back from its rendering: different digests render differently.\<close>

lemma hexdigest_inj:
  fixes v w :: "256 word"
  assumes "hexdigest v = hexdigest w"
  shows "v = w"
proof (rule bit_word_eqI)
  fix n assume "n < LENGTH(256)"
  then have k: "n div 4 < 64" by simp
  have split: "4 * (n div 4) + n mod 4 = n" by simp
  have "bit v n = bit (take_bit 4 (drop_bit (4 * (n div 4)) v)) (n mod 4)"
    by (simp add: bit_take_bit_iff bit_drop_bit_eq split)
  also have "\<dots> = bit (take_bit 4 (drop_bit (4 * (n div 4)) w)) (n mod 4)"
    by (simp only: nibble_eq [OF assms k])
  also have "\<dots> = bit w n"
    by (simp add: bit_take_bit_iff bit_drop_bit_eq split)
  finally show "bit v n = bit w n" .
qed

lemma indices_of_digits:
  "[0..<64] =
     0 # 1 # 2 # 3 # 4 # 5 # 6 # 7 # 8 # 9 # 10 # 11 # 12 # 13 # 14 # 15 # 16 # 17 # 18 #
     19 # 20 # 21 # 22 # 23 # 24 # 25 # 26 # 27 # 28 # 29 # 30 # 31 # 32 # 33 # 34 # 35 #
     36 # 37 # 38 # 39 # 40 # 41 # 42 # 43 # 44 # 45 # 46 # 47 # 48 # 49 # 50 # 51 # 52 #
     53 # 54 # 55 # 56 # 57 # 58 # 59 # 60 # 61 # 62 # [63 :: nat]"
  by code_simp

lemma hexdigest_digits:
  "hexdigest w =
     map (\<lambda>i. ''0123456789abcdef'' ! (unat w div 2 ^ (4 * (63 - i)) mod 16)) [0..<64]"
proof -
  have "unat (drop_bit n w) mod 16 = unat w div 2 ^ n mod 16" for n
    by (subst unat_drop_bit_eq) (simp only: drop_bit_eq_div)
  then show ?thesis by (simp add: hexdigest_def hex_digit_def)
qed

lemma foo_digest_rendered:
  "hexdigest foo_digest = ''0c7e6a405862e402eb76a70f8a26fc732d07c32931e9fae9ab1582911d2e8a3b''"
  unfolding foo_digest_def hexdigest_digits indices_of_digits by simp

subsection \<open>The token\<close>

lemma normalized_sample:
  "lower rt (strip (str_of '' Foo@Bar.com '')) = str_of ''foo@bar.com''"
  "lower rt (strip (str_of ''foo@bar.com'')) = str_of ''foo@bar.com''"
  by (simp_all add: string_defs)

lemma encoded_sample:
  "encode_utf8 (str_of ''foo@bar.com'') = Inr [102, 111, 111, 64, 98, 97, 114, 46, 99, 111, 109]"
  by (simp add: string_defs)

text \<open>White space beyond ASCII is trimmed; code points take one to four bytes.\<close>

lemma wide_sample:
  "strip [0x3000, 0x41, 0x20, 0x42, 0x2003, 0x0A] = [0x41, 0x20, 0x42]"
  "encode_utf8 [0xE9, 0x20AC, 0x1F600]
     = Inr [0xC3, 0xA9, 0xE2, 0x82, 0xAC, 0xF0, 0x9F, 0x98, 0x80]"
  by (simp_all add: string_defs)

lemma encode_utf8_iff:
  "encode_utf8 s = Inr b \<longleftrightarrow> \<not> list_ex surrogate s \<and> b = concat (map encode_char s)"
  by (auto simp: encode_utf8_def)

lemma sha256_token_text:
  assumes "v \<noteq> []"
  shows "sha256_token rt (JStr v) =
           (case encode_utf8 (lower rt (strip v)) of
              Inl e \<Rightarrow> Inl UnicodeEncodeError
            | Inr b \<Rightarrow> Inr (JText (hexdigest (sha256 rt b))))"
  using assms by (auto simp: sha256_token_def encode_utf8_def split: sum.splits)

text \<open>
  A value of white space only is not empty: it is trimmed to the empty string, and the
  digest of no bytes is its token.
\<close>

lemma blank_value_is_hashed:
  "sha256_token rt (JText '' '') = Inr (JText (hexdigest (sha256 rt [])))"
  by (simp add: sha256_token_def string_defs)

text \<open>A mapping that has the key \<open>strip\<close> is refused with another exception than one without.\<close>

lemma mapping_values_refused:
  "sha256_token rt strip_key_object = Inl TypeError"
  "sha256_token rt (JObj (dict_of [(''email'', JText ''a@b.com'')])) = Inl AttributeError"
  "sha256_token rt (JInt 5) = Inl AttributeError"
  by (simp_all add: sha256_token_def strip_key_object_def)

text \<open>
  C8, as stated, fails: a string is not always tokenized. On a string that holds a lone
  surrogate, such as \<open>json.loads\<close> gives for the escape \<open>\ud800\<close>, the function raises
  \<open>UnicodeEncodeError\<close>, because the value has no UTF-8 bytes.
\<close>

theorem sha256_token_lone_surrogate:
  "[0xD800 :: nat] \<noteq> []
   \<and> lower sample_runtime (strip [0xD800]) = [0xD800]
   \<and> encode_utf8 [0xD800] = Inl UnicodeEncodeError
   \<and> sha256_token sample_runtime (JStr [0xD800]) = Inl UnicodeEncodeError"
  by (simp add: sha256_token_def string_defs sample_runtime_def)

text \<open>
  C8, amended. The token of an absent value and of the empty string is absent. For any
  other string, take the value trimmed and lower-cased: if it holds no lone surrogate,
  the token is the hexadecimal rendering of the SHA-256 digest of its UTF-8 bytes, 64
  digits out of \<open>0-9a-f\<close> from which the digest can be read back; if it holds one, the
  function raises \<open>UnicodeEncodeError\<close>. So two values that agree after trimming and
  lower-casing have the same token, as \<open>" Foo@Bar.com "\<close> and \<open>"foo@bar.com"\<close> do.
\<close>

theorem sha256_token_normalizes:
  "sha256_token rt JNull = Inr JNull
   \<and> sha256_token rt (JStr []) = Inr JNull
   \<and> (v \<noteq> [] \<and> encode_utf8 (lower rt (strip v)) = Inr b \<longrightarrow>
        sha256_token rt (JStr v) = Inr (JText (hexdigest (sha256 rt b))))
   \<and> (v \<noteq> [] \<and> list_ex surrogate (lower rt (strip v)) \<longrightarrow>
        sha256_token rt (JStr v) = Inl UnicodeEncodeError)
   \<and> (encode_utf8 s = Inr b \<longleftrightarrow> \<not> list_ex surrogate s \<and> b = concat (map encode_char s))
   \<and> (v \<noteq> [] \<and> w \<noteq> [] \<and> lower rt (strip v) = lower rt (strip w) \<longrightarrow>
        sha256_token rt (JStr v) = sha256_token rt (JStr w))
   \<and> length (hexdigest d) = 64
   \<and> set (hexdigest d) \<subseteq> set ''0123456789abcdef''
   \<and> (hexdigest d = hexdigest d' \<longleftrightarrow> d = d')
   \<and> strip [0x3000, 0x41, 0x20, 0x42, 0x2003, 0x0A] = [0x41, 0x20, 0x42]
   \<and> encode_utf8 [0xE9, 0x20AC, 0x1F600]
        = Inr [0xC3, 0xA9, 0xE2, 0x82, 0xAC, 0xF0, 0x9F, 0x98, 0x80]
   \<and> lower rt (strip (str_of '' Foo@Bar.com '')) = str_of ''foo@bar.com''
   \<and> sha256_token rt (JText '' Foo@Bar.com '') = sha256_token rt (JText ''foo@bar.com'')
   \<and> sha256_token rt (JText ''foo@bar.com'')
        = Inr (JText (hexdigest (sha256 rt [102, 111, 111, 64, 98, 97, 114, 46, 99, 111, 109])))"
proof -
  have none: "sha256_token rt JNull = Inr JNull" "sha256_token rt (JStr []) = Inr JNull"
    by (simp_all add: sha256_token_def)
  have token: "sha256_token rt (JStr v) = Inr (JText (hexdigest (sha256 rt b)))"
    if "v \<noteq> [] \<and> encode_utf8 (lower rt (strip v)) = Inr b"
    using that by (simp add: sha256_token_text)
  have raises: "sha256_token rt (JStr v) = Inl UnicodeEncodeError"
    if "v \<noteq> [] \<and> list_ex surrogate (lower rt (strip v))"
    using that by (simp add: sha256_token_text encode_utf8_def)
  have same: "sha256_token rt (JStr v) = sha256_token rt (JStr w)"
    if "v \<noteq> [] \<and> w \<noteq> [] \<and> lower rt (strip v) = lower rt (strip w)"
    using that by (simp add: sha256_token_text)
  have inj: "hexdigest d = hexdigest d' \<longleftrightarrow> d = d'"
    using hexdigest_inj [of d d'] by blast
  have ne: "str_of '' Foo@Bar.com '' \<noteq> []" "str_of ''foo@bar.com'' \<noteq> []"
    by (simp_all add: str_of_def)
  have example:
    "sha256_token rt (JText '' Foo@Bar.com '') = sha256_token rt (JText ''foo@bar.com'')"
    "sha256_token rt (JText ''foo@bar.com'')
       = Inr (JText (hexdigest (sha256 rt [102, 111, 111, 64, 98, 97, 114, 46, 99, 111, 109])))"
    by (simp_all add: sha256_token_text [OF ne(1)] sha256_token_text [OF ne(2)]
                      normalized_sample encoded_sample)
  from none token raises encode_utf8_iff [of s b] same hexdigest_length [of d]
       hexdigest_chars [of d] inj wide_sample normalized_sample(1) [of rt] example
  show ?thesis by blast
qed

text \<open>
  The spec's example under a runtime whose digest of \<open>foo@bar.com\<close> is the one
  \<open>hashlib\<close> computes: both spellings get the token that the Python function returns.
  A value with a lone surrogate in it gets none.
\<close>

theorem sha256_token_normalizes_witness:
  "str_of '' Foo@Bar.com '' \<noteq> [] \<and> str_of ''foo@bar.com'' \<noteq> []
   \<and> lower hashlib_runtime (strip (str_of '' Foo@Bar.com ''))
       = lower hashlib_runtime (strip (str_of ''foo@bar.com''))
   \<and> encode_utf8 (lower hashlib_runtime (strip (str_of '' Foo@Bar.com '')))
       = Inr [102, 111, 111, 64, 98, 97, 114, 46, 99, 111, 109]
   \<and> sha256_token hashlib_runtime (JText '' Foo@Bar.com '')
       = Inr (JText ''0c7e6a405862e402eb76a70f8a26fc732d07c32931e9fae9ab1582911d2e8a3b'')
   \<and> sha256_token hashlib_runtime (JText ''foo@bar.com'')
       = Inr (JText ''0c7e6a405862e402eb76a70f8a26fc732d07c32931e9fae9ab1582911d2e8a3b'')
   \<and> [97, 0xD800 :: nat] \<noteq> []
   \<and> list_ex surrogate (lower hashlib_runtime (strip [97, 0xD800]))
   \<and> sha256_token hashlib_runtime (JStr [97, 0xD800]) = Inl UnicodeEncodeError"
proof -
  let ?bytes = "[102, 111, 111, 64, 98, 97, 114, 46, 99, 111, 109] :: bytes"
  have ne: "str_of '' Foo@Bar.com '' \<noteq> []" "str_of ''foo@bar.com'' \<noteq> []"
    by (simp_all add: str_of_def)
  have eq: "lower hashlib_runtime (strip (str_of '' Foo@Bar.com ''))
              = lower hashlib_runtime (strip (str_of ''foo@bar.com''))"
    by (simp only: normalized_sample)
  have enc: "encode_utf8 (lower hashlib_runtime (strip (str_of '' Foo@Bar.com ''))) = Inr ?bytes"
    by (simp only: normalized_sample encoded_sample)
  have digest: "sha256 hashlib_runtime ?bytes = foo_digest"
    by (simp add: hashlib_runtime_def)
  have sur: "[97, 0xD800 :: nat] \<noteq> []"
            "list_ex surrogate (lower hashlib_runtime (strip [97, 0xD800]))"
    by (simp_all add: string_defs hashlib_runtime_def sample_runtime_def)
  note t = sha256_token_normalizes
             [where rt = hashlib_runtime and v = "str_of '' Foo@Bar.com ''"
                and w = "str_of ''foo@bar.com''" and b = ?bytes]
  note u = sha256_token_normalizes [where rt = hashlib_runtime and v = "[97, 0xD800]"]
  from t ne(1) enc
  have "sha256_token hashlib_runtime (JText '' Foo@Bar.com '')
          = Inr (JText (hexdigest (sha256 hashlib_runtime ?bytes)))"
    by blast
  then have a: "sha256_token hashlib_runtime (JText '' Foo@Bar.com '')
          = Inr (JText ''0c7e6a405862e402eb76a70f8a26fc732d07c32931e9fae9ab1582911d2e8a3b'')"
    by (simp only: digest foo_digest_rendered)
  from t ne eq
  have "sha256_token hashlib_runtime (JText '' Foo@Bar.com '')
          = sha256_token hashlib_runtime (JText ''foo@bar.com'')"
    by blast
  with a have b: "sha256_token hashlib_runtime (JText ''foo@bar.com'')
          = Inr (JText ''0c7e6a405862e402eb76a70f8a26fc732d07c32931e9fae9ab1582911d2e8a3b'')"
    by simp
  from u sur
  have c: "sha256_token hashlib_runtime (JStr [97, 0xD800]) = Inl UnicodeEncodeError"
    by blast
  from ne eq enc a b sur c show ?thesis by blast
qed

section \<open>The \<open>pii\<close> section\<close>

text \<open>
  The \<open>pii\<close> section of a normalized record has two members, the tokens of the receipt
  e-mail and of the customer id: each is absent, or the hexadecimal digest of the UTF-8
  bytes of the trimmed, lower-cased value. Whether the value can be found from the
  digest is a matter of the digest function, which is the library's.
\<close>

lemma token_cases:
  assumes "sha256_token rt x = Inr t"
  shows "t = JNull
         \<or> (\<exists>s b. x = JStr s \<and> s \<noteq> [] \<and> encode_utf8 (lower rt (strip s)) = Inr b
                  \<and> t = JText (hexdigest (sha256 rt b)))"
  using assms by (cases x) (auto simp: sha256_token_def split: if_splits sum.splits)

lemma pii_holds_tokens_only:
  assumes "normalize rt stripe_event = Inr doc" "event_object stripe_event = Inr obj"
  shows "\<exists>email_token customer_id_token.
           field doc ''pii'' = JObj (dict_of [(''email_token'', email_token),
                                              (''customer_id_token'', customer_id_token)])
           \<and> (email_token = JNull
                \<or> (\<exists>s b. receipt_email_of obj = Inr (JStr s) \<and> s \<noteq> []
                          \<and> encode_utf8 (lower rt (strip s)) = Inr b
                          \<and> email_token = JText (hexdigest (sha256 rt b))))
           \<and> (customer_id_token = JNull
                \<or> (\<exists>s b. dict_get obj ''customer'' = JStr s \<and> s \<noteq> []
                          \<and> encode_utf8 (lower rt (strip s)) = Inr b
                          \<and> customer_id_token = JText (hexdigest (sha256 rt b))))"
proof -
  obtain r where r: "receipt_email_of obj = Inr r" "assemble rt stripe_event obj r = Inr doc"
    using normalize_document [OF assms] by blast
  note p = assemble_pii [OF r(2)]
  from p token_cases [of rt r "email_token_of doc"]
  have "email_token_of doc = JNull
        \<or> (\<exists>s b. receipt_email_of obj = Inr (JStr s) \<and> s \<noteq> []
                 \<and> encode_utf8 (lower rt (strip s)) = Inr b
                 \<and> email_token_of doc = JText (hexdigest (sha256 rt b)))"
    using r(1) by blast
  moreover from p token_cases [of rt "dict_get obj ''customer''" "customer_id_token_of doc"]
  have "customer_id_token_of doc = JNull
        \<or> (\<exists>s b. dict_get obj ''customer'' = JStr s \<and> s \<noteq> []
                 \<and> encode_utf8 (lower rt (strip s)) = Inr b
                 \<and> customer_id_token_of doc = JText (hexdigest (sha256 rt b)))"
    by blast
  ultimately show ?thesis using p by blast
qed

end
